theory Spec2Isabelle
  imports Main
begin


section \<open>graphqlgo: one GraphQL exchange over HTTP\<close>

text \<open>
  A shallow embedding of \<^verbatim>\<open>graphqlgo.go\<close>: the types \<^verbatim>\<open>Client\<close>, \<^verbatim>\<open>Request\<close>,
  \<^verbatim>\<open>RequestBody\<close>, \<^verbatim>\<open>GraphQLResponse\<close>, \<^verbatim>\<open>GraphQLError\<close>, the request options and the
  method \<^verbatim>\<open>Client.Run\<close>.

  \<^verbatim>\<open>Run\<close> calls into Go's standard library. What the library does is written out where
  the behaviour of \<^verbatim>\<open>Run\<close> depends on it (how \<^verbatim>\<open>encoding/json\<close> writes a struct, a nil
  map and a nil pointer; how it stores a JSON document into the response structs; how
  \<^verbatim>\<open>http.Header.Add\<close> appends). What only passes through \<^verbatim>\<open>Run\<close> is a field of the
  record \<open>env\<close>: the text of a JSON string literal, the encoding of a non-nil variables
  map, the scanner that splits the response text into a JSON document, the store of
  the \<^verbatim>\<open>data\<close> member into the caller's object, URL parsing, the canonical form of
  a header key. The HTTP client is the function held by the \<^verbatim>\<open>Client\<close> itself.
\<close>

subsection \<open>Errors\<close>

text \<open>
  The Go \<^verbatim>\<open>error\<close> values that occur: the two errors of a context, an error with a
  message (\<^verbatim>\<open>fmt.Errorf\<close>, and every error of a library taken as a parameter),
  \<^verbatim>\<open>errors.Wrap(err, msg)\<close>, and the \<^verbatim>\<open>*json.UnmarshalTypeError\<close> of a JSON value that
  does not fit the Go type it is stored into (its field \<^verbatim>\<open>Value\<close> is kept). \<open>Panic\<close> is
  not a returned error: it stands for a run-time panic of the call.
\<close>

datatype error =
    Canceled
  | DeadlineExceeded
  | ErrorString string
  | Wrap error string
  | UnmarshalTypeError string
  | Panic string

text \<open>Decimal text of an integer, as \<^verbatim>\<open>%v\<close> prints a Go \<^verbatim>\<open>int\<close>.\<close>

fun utoa :: "nat \<Rightarrow> string" where
  "utoa n = (if n < 10 then [''0123456789'' ! n]
             else utoa (n div 10) @ [''0123456789'' ! (n mod 10)])"

declare utoa.simps [simp del]

definition itoa :: "int \<Rightarrow> string" where
  "itoa i = (if i < 0 then CHR ''-'' # utoa (nat (- i)) else utoa (nat i))"

subsection \<open>JSON documents\<close>

text \<open>
  A JSON document as the decoder's scanner delivers it. The members of an object are
  kept in the order of the text, repeated keys included, because the decoder stores
  them one after the other. A number literal without fraction and exponent is \<open>JInt\<close>;
  any other number literal is \<open>JFloat\<close> with its text.
\<close>

datatype json =
    JNull
  | JBool bool
  | JInt int
  | JFloat string
  | JString string
  | JArray "json list"
  | JObject "(string \<times> json) list"

subsection \<open>Header maps and the heap that holds them\<close>

text \<open>
  \<^verbatim>\<open>http.Header\<close> is \<^verbatim>\<open>map[string][]string\<close>, a reference type: the client, the request
  and the outbound HTTP request each hold a reference to a map. The maps live in a heap,
  a list indexed by address; allocation appends. The entries of a map are a list of
  keys with their values. Go ranges over a map in an unspecified order: the list order
  stands for the order of one run, and every theorem below holds for every list.
\<close>

type_synonym header = "(string \<times> string list) list"
type_synonym addr = nat
type_synonym heap = "header list"

text \<open>Reading through a reference; ranging over a nil map visits nothing.\<close>

definition hget :: "heap \<Rightarrow> addr option \<Rightarrow> header" where
  "hget hp p = (case p of None \<Rightarrow> [] | Some a \<Rightarrow> if a < length hp then hp ! a else [])"

definition allocated :: "heap \<Rightarrow> addr option \<Rightarrow> bool" where
  "allocated hp p = (case p of None \<Rightarrow> True | Some a \<Rightarrow> a < length hp)"

text \<open>\<^verbatim>\<open>h[key]\<close>: the values under a key, nil when the key is absent.\<close>

definition values_of :: "header \<Rightarrow> string \<Rightarrow> string list" where
  "values_of h key = (case map_of h key of None \<Rightarrow> [] | Some vs \<Rightarrow> vs)"

text \<open>\<^verbatim>\<open>h[key] = append(h[key], value)\<close>\<close>

fun append_value :: "header \<Rightarrow> string \<Rightarrow> string \<Rightarrow> header" where
  "append_value [] key v = [(key, [v])]"
| "append_value ((k, vs) # h) key v =
     (if k = key then (k, vs @ [v]) # h else (k, vs) # append_value h key v)"

text \<open>
  \<^verbatim>\<open>Header.Add(key, value)\<close>: the key is brought into canonical form
  (\<^verbatim>\<open>textproto.CanonicalMIMEHeaderKey\<close>, the parameter \<open>cn\<close>), then the value is appended.
\<close>

definition Add :: "(string \<Rightarrow> string) \<Rightarrow> header \<Rightarrow> string \<Rightarrow> string \<Rightarrow> header" where
  "Add cn h key v = append_value h (cn key) v"

subsection \<open>The types of the package\<close>

text \<open>
  \<^verbatim>\<open>map[string]interface{}\<close> of the variables is the type parameter \<open>'m\<close>; \<open>None\<close> is the
  nil map. \<^verbatim>\<open>*string\<close> is \<open>string option\<close>.
\<close>

record 'm RequestBody =
  Query :: string
  Variables :: "'m option"
  OperationName :: "string option"

record 'm Request =
  q :: string
  vars :: "'m option"
  opName :: "string option"
  Header :: "addr option"

text \<open>
  \<^verbatim>\<open>context.Context\<close>, as \<^verbatim>\<open>Run\<close> reads it on entry: \<^verbatim>\<open>Done()\<close> is closed exactly when
  \<^verbatim>\<open>Err()\<close> is not nil.
\<close>

record Context =
  Err :: "error option"

text \<open>
  \<^verbatim>\<open>http.Request\<close> and \<^verbatim>\<open>http.Response\<close>. The body of a response is what draining it
  gives: the text, or the error of the read. \<^verbatim>\<open>Cookies()\<close> is computed by the library
  from the response's headers; it is kept as a field.
\<close>

record http_Request =
  Method :: string
  URL :: string
  Body :: string
  Close :: bool
  Header :: addr
  Ctx :: Context

record http_Response =
  StatusCode :: int
  Header :: header
  Cookies :: "string list"
  ContentLength :: int
  Body :: "error + string"

text \<open>
  \<^verbatim>\<open>http.Client.Do\<close>: from the state of the network and the servers (\<open>'w\<close>) and the
  request (whose header map it reads in the heap) to a response or an error, and the
  new state of the network.
\<close>

type_synonym 'w transport = "'w \<Rightarrow> heap \<Rightarrow> http_Request \<Rightarrow> (error + http_Response) \<times> 'w"

text \<open>The values \<^verbatim>\<open>Run\<close> stores in \<^verbatim>\<open>InspectRun\<close> (a \<^verbatim>\<open>map[string]interface{}\<close>).\<close>

datatype 'm inspect =
    ReqBodyRef "'m RequestBody"
  | HeaderRef addr
  | HeaderVal header
  | IntVal int
  | CookiesVal "string list"
  | StringVal string

record ('m, 'w) Client =
  Endpoint :: string
  httpClient :: "'w transport option"
  Header :: "addr option"
  closeReq :: bool
  InspectRun :: "string \<rightharpoonup> 'm inspect"

record Location =
  Line :: int
  Column :: int

record GraphQLError =
  Message :: string
  Locations :: "Location list"
  Path :: "json list"
  Extensions :: "string \<rightharpoonup> json"

text \<open>
  The field \<^verbatim>\<open>Data interface{}\<close> of the response: \<open>Injected\<close> while it holds the
  caller's pointer (\<^verbatim>\<open>gr.Data = resp\<close>), \<open>Generic j\<close> once it holds a value the decoder
  made itself (\<open>Generic JNull\<close> is the nil interface). The object behind the caller's
  pointer is threaded beside the struct.
\<close>

datatype data_slot = Injected | Generic json

record GraphQLResponse =
  Data :: data_slot
  Errors :: "GraphQLError list"

subsection \<open>The collaborators\<close>

record ('m, 't) env =
  encString :: "string \<Rightarrow> string"
  encMap :: "'m \<Rightarrow> error + string"
  parseURL :: "string \<Rightarrow> error option"
  CanonicalMIMEHeaderKey :: "string \<Rightarrow> string"
  parseValue :: "string \<Rightarrow> error + json"
  decodeInto :: "json \<Rightarrow> 't \<Rightarrow> 't \<times> error option"

subsection \<open>Encoding the request body\<close>

text \<open>
  \<^verbatim>\<open>json.NewEncoder(&requestBody).Encode(requestBodyObj)\<close>. The three fields of
  \<^verbatim>\<open>RequestBody\<close> carry the tags \<^verbatim>\<open>json:"query"\<close>, \<^verbatim>\<open>json:"variables"\<close> and
  \<^verbatim>\<open>json:"operationName"\<close>, none with \<^verbatim>\<open>omitempty\<close>: the encoder writes every key, in
  the order of the struct, a nil map and a nil pointer as \<^verbatim>\<open>null\<close>, and ends the
  document with a newline. Only the encoding of a value inside a non-nil variables map
  can fail.
\<close>

definition Encode :: "('m, 't) env \<Rightarrow> 'm RequestBody \<Rightarrow> error + string" where
  \<open>Encode env b =
     (case (case Variables b of None \<Rightarrow> Inr ''null'' | Some m \<Rightarrow> encMap env m) of
        Inl err \<Rightarrow> Inl err
      | Inr v \<Rightarrow>
          Inr (''{"query":'' @ encString env (Query b)
               @ '',"variables":'' @ v
               @ '',"operationName":''
               @ (case OperationName b of None \<Rightarrow> ''null'' | Some s \<Rightarrow> encString env s)
               @ ''}'' @ [CHR 0x0A]))\<close>

subsection \<open>Building the outbound request\<close>

text \<open>
  \<^verbatim>\<open>http.NewRequest(method, url, body)\<close>: fails when the URL does not parse; otherwise
  the request has a fresh, empty header map and the background context.
\<close>

definition http_NewRequest ::
  "('m, 't) env \<Rightarrow> heap \<Rightarrow> string \<Rightarrow> string \<Rightarrow> string \<Rightarrow> error + (http_Request \<times> heap)" where
  "http_NewRequest env hp method url body =
     (case parseURL env url of
        Some err \<Rightarrow> Inl err
      | None \<Rightarrow>
          Inr (\<lparr>Method = method, URL = url, Body = body, Close = False,
                Header = length hp, Ctx = \<lparr>Err = None\<rparr>\<rparr>,
               hp @ [[]]))"

text \<open>
  The two nested loops of \<^verbatim>\<open>Run\<close> (lines 160 to 171):
  \<^verbatim>\<open>for key, values := range src { for _, value := range values { r.Header.Add(key, value) } }\<close>
  where \<open>a\<close> is the address of \<^verbatim>\<open>r.Header\<close>.
\<close>

fun add_values :: "(string \<Rightarrow> string) \<Rightarrow> heap \<Rightarrow> addr \<Rightarrow> string \<Rightarrow> string list \<Rightarrow> heap" where
  "add_values cn hp a key [] = hp"
| "add_values cn hp a key (v # vs) = add_values cn (hp[a := Add cn (hp ! a) key v]) a key vs"

fun add_headers :: "(string \<Rightarrow> string) \<Rightarrow> heap \<Rightarrow> addr \<Rightarrow> header \<Rightarrow> heap" where
  "add_headers cn hp a [] = hp"
| "add_headers cn hp a ((key, vs) # src) = add_headers cn (add_values cn hp a key vs) a src"

subsection \<open>Decoding the response\<close>

text \<open>
  \<^verbatim>\<open>json.NewDecoder(&buf).Decode(&gr)\<close>. The scanner reads the first JSON document of
  the text (\<open>parseValue\<close>: a syntax error stores nothing), then the decoder stores it
  into \<^verbatim>\<open>gr\<close>. A value that does not fit its Go type gives an
  \<^verbatim>\<open>UnmarshalTypeError\<close>; the decoder keeps the first one, goes on, and returns it at
  the end, so each function below returns the value stored and the first error met.

  A key of an object is matched to a field of a struct by its name in the tag: an
  exact match first, else the first field that is equal to it ignoring case.
  \<open>foldName\<close> folds ASCII letters to upper case and the two letters outside ASCII
  whose case folding is an ASCII letter: U+017F (long s, bytes C5 BF) and U+212A
  (Kelvin sign, bytes E2 84 AA).
\<close>

definition orElse :: "error option \<Rightarrow> error option \<Rightarrow> error option" where
  "orElse s e = (case s of None \<Rightarrow> e | Some x \<Rightarrow> Some x)"

definition upper :: "char \<Rightarrow> char" where
  "upper c = (let n = (of_char c :: int) in if 97 \<le> n \<and> n \<le> 122 then char_of (n - 32) else c)"

fun foldName :: "string \<Rightarrow> string" where
  "foldName [] = []"
| "foldName (c # cs) =
     (if c = CHR 0xC5 \<and> take 1 cs = [CHR 0xBF] then CHR ''S'' # foldName (drop 1 cs)
      else if c = CHR 0xE2 \<and> take 2 cs = [CHR 0x84, CHR 0xAA] then CHR ''K'' # foldName (drop 2 cs)
      else upper c # foldName cs)"

definition find_field :: "string list \<Rightarrow> string \<Rightarrow> string option" where
  "find_field names key =
     (if key \<in> set names then Some key
      else find (\<lambda>name. foldName name = foldName key) names)"

fun kind_of :: "json \<Rightarrow> string" where
  "kind_of JNull = ''null''"
| "kind_of (JBool b) = ''bool''"
| "kind_of (JInt n) = ''number''"
| "kind_of (JFloat s) = ''number''"
| "kind_of (JString s) = ''string''"
| "kind_of (JArray js) = ''array''"
| "kind_of (JObject ms) = ''object''"

text \<open>Storing into a Go \<^verbatim>\<open>string\<close>: \<^verbatim>\<open>null\<close> leaves it as it is.\<close>

fun store_string :: "string \<Rightarrow> json \<Rightarrow> string \<times> error option" where
  "store_string cur JNull = (cur, None)"
| "store_string cur (JString s) = (s, None)"
| "store_string cur j = (cur, Some (UnmarshalTypeError (kind_of j)))"

text \<open>
  Storing into a Go \<^verbatim>\<open>int\<close> (64 bits): the literal goes through
  \<^verbatim>\<open>strconv.ParseInt(s, 10, 64)\<close>, which refuses a literal with a fraction or an
  exponent and a value outside the range.
\<close>

definition fits_int :: "int \<Rightarrow> bool" where
  "fits_int n = (- (2 ^ 63) \<le> n \<and> n < 2 ^ 63)"

fun store_int :: "int \<Rightarrow> json \<Rightarrow> int \<times> error option" where
  "store_int cur JNull = (cur, None)"
| "store_int cur (JInt n) =
     (if fits_int n then (n, None) else (cur, Some (UnmarshalTypeError ''number'')))"
| "store_int cur j = (cur, Some (UnmarshalTypeError (kind_of j)))"

text \<open>The members of an object, stored in the order of the text.\<close>

fun store_members ::
  "(string \<Rightarrow> json \<Rightarrow> 'a \<Rightarrow> 'a \<times> error option) \<Rightarrow> (string \<times> json) list \<Rightarrow> 'a \<Rightarrow> 'a \<times> error option" where
  "store_members f [] a = (a, None)"
| "store_members f ((k, v) # ms) a =
     (let (a1, e1) = f k v a; (a2, e2) = store_members f ms a1 in (a2, orElse e1 e2))"

text \<open>
  An array stored into a slice: element \<open>i\<close> of the array is stored into element \<open>i\<close>
  of the slice as it is when the slice has one, into a zero value otherwise; the slice
  ends with the length of the array. \<^verbatim>\<open>null\<close> makes the slice nil. (The spare
  capacity of a slice that shrank is not tracked: a later, longer array fills it from
  zero values.)
\<close>

fun store_elems :: "('a \<Rightarrow> json \<Rightarrow> 'a \<times> error option) \<Rightarrow> 'a \<Rightarrow> 'a list \<Rightarrow> json list \<Rightarrow> 'a list \<times> error option" where
  "store_elems f z cur [] = ([], None)"
| "store_elems f z cur (j # js) =
     (let (x, e1) = f (case cur of [] \<Rightarrow> z | c # _ \<Rightarrow> c) j;
          (xs, e2) = store_elems f z (tl cur) js
      in (x # xs, orElse e1 e2))"

fun store_slice :: "('a \<Rightarrow> json \<Rightarrow> 'a \<times> error option) \<Rightarrow> 'a \<Rightarrow> 'a list \<Rightarrow> json \<Rightarrow> 'a list \<times> error option" where
  "store_slice f z cur JNull = ([], None)"
| "store_slice f z cur (JArray js) = store_elems f z cur js"
| "store_slice f z cur j = (cur, Some (UnmarshalTypeError (kind_of j)))"

text \<open>
  The element of \<^verbatim>\<open>Locations\<close>: an anonymous struct with the fields \<^verbatim>\<open>Line\<close> and
  \<^verbatim>\<open>Column\<close>, tagged \<^verbatim>\<open>json:"Line"\<close> and \<^verbatim>\<open>json:"Column"\<close>.
\<close>

definition Location_fields :: "string list" where
  "Location_fields = [''Line'', ''Column'']"

definition store_Location_field :: "string \<Rightarrow> json \<Rightarrow> Location \<Rightarrow> Location \<times> error option" where
  "store_Location_field k v loc =
     (case find_field Location_fields k of
        None \<Rightarrow> (loc, None)
      | Some name \<Rightarrow>
          if name = ''Line'' then (let (n, e) = store_int (Line loc) v in (loc\<lparr>Line := n\<rparr>, e))
          else (let (n, e) = store_int (Column loc) v in (loc\<lparr>Column := n\<rparr>, e)))"

fun store_Location :: "Location \<Rightarrow> json \<Rightarrow> Location \<times> error option" where
  "store_Location loc JNull = (loc, None)"
| "store_Location loc (JObject ms) = store_members store_Location_field ms loc"
| "store_Location loc j = (loc, Some (UnmarshalTypeError (kind_of j)))"

text \<open>
  \<^verbatim>\<open>Path []interface{}\<close> takes the elements of an array as the decoder's generic
  values; \<^verbatim>\<open>Extensions map[string]interface{}\<close> takes the members of an object, a later
  key over an earlier one, into the map it has.
\<close>

fun store_Path :: "json list \<Rightarrow> json \<Rightarrow> json list \<times> error option" where
  "store_Path cur JNull = ([], None)"
| "store_Path cur (JArray js) = (js, None)"
| "store_Path cur j = (cur, Some (UnmarshalTypeError (kind_of j)))"

fun store_Extensions :: "(string \<rightharpoonup> json) \<Rightarrow> json \<Rightarrow> (string \<rightharpoonup> json) \<times> error option" where
  "store_Extensions cur JNull = (Map.empty, None)"
| "store_Extensions cur (JObject ms) = (foldl (\<lambda>m (k, v). m(k \<mapsto> v)) cur ms, None)"
| "store_Extensions cur j = (cur, Some (UnmarshalTypeError (kind_of j)))"

definition GraphQLError_fields :: "string list" where
  "GraphQLError_fields = [''message'', ''locations'', ''path'', ''extensions'']"

definition zero_Location :: Location where
  "zero_Location = \<lparr>Line = 0, Column = 0\<rparr>"

definition zero_GraphQLError :: GraphQLError where
  "zero_GraphQLError = \<lparr>Message = [], Locations = [], Path = [], Extensions = Map.empty\<rparr>"

definition store_GraphQLError_field :: "string \<Rightarrow> json \<Rightarrow> GraphQLError \<Rightarrow> GraphQLError \<times> error option" where
  "store_GraphQLError_field k v g =
     (case find_field GraphQLError_fields k of
        None \<Rightarrow> (g, None)
      | Some name \<Rightarrow>
          if name = ''message'' then
            (let (s, e) = store_string (Message g) v in (g\<lparr>Message := s\<rparr>, e))
          else if name = ''locations'' then
            (let (ls, e) = store_slice store_Location zero_Location (Locations g) v
             in (g\<lparr>Locations := ls\<rparr>, e))
          else if name = ''path'' then
            (let (p, e) = store_Path (Path g) v in (g\<lparr>Path := p\<rparr>, e))
          else
            (let (x, e) = store_Extensions (Extensions g) v in (g\<lparr>Extensions := x\<rparr>, e)))"

fun store_GraphQLError :: "GraphQLError \<Rightarrow> json \<Rightarrow> GraphQLError \<times> error option" where
  "store_GraphQLError g JNull = (g, None)"
| "store_GraphQLError g (JObject ms) = store_members store_GraphQLError_field ms g"
| "store_GraphQLError g j = (g, Some (UnmarshalTypeError (kind_of j)))"

text \<open>
  \<^verbatim>\<open>GraphQLResponse\<close>. A value for \<^verbatim>\<open>data\<close> goes through the caller's pointer into the
  caller's object while the field holds that pointer (\<open>dec\<close>, the store into the
  caller's type); \<^verbatim>\<open>null\<close> sets the field itself to nil and leaves the caller's object
  alone; a field that holds no pointer takes the generic value. The model covers a
  target that is a pointer to a value that is not itself a pointer.
\<close>

definition GraphQLResponse_fields :: "string list" where
  "GraphQLResponse_fields = [''data'', ''errors'']"

definition store_GraphQLResponse_field ::
  "(json \<Rightarrow> 't \<Rightarrow> 't \<times> error option) \<Rightarrow> string \<Rightarrow> json \<Rightarrow> GraphQLResponse \<times> 't option
     \<Rightarrow> (GraphQLResponse \<times> 't option) \<times> error option" where
  "store_GraphQLResponse_field dec k v st =
     (case st of (gr, tgt) \<Rightarrow>
      (case find_field GraphQLResponse_fields k of
         None \<Rightarrow> ((gr, tgt), None)
       | Some name \<Rightarrow>
           if name = ''data'' then
             (case (Data gr, tgt) of
                (Injected, Some t) \<Rightarrow>
                  (case v of
                     JNull \<Rightarrow> ((gr\<lparr>Data := Generic JNull\<rparr>, tgt), None)
                   | _ \<Rightarrow> (let (t', e) = dec v t in ((gr, Some t'), e)))
              | _ \<Rightarrow> ((gr\<lparr>Data := Generic v\<rparr>, tgt), None))
           else
             (let (es, e) = store_slice store_GraphQLError zero_GraphQLError (Errors gr) v
              in ((gr\<lparr>Errors := es\<rparr>, tgt), e))))"

fun store_GraphQLResponse ::
  "(json \<Rightarrow> 't \<Rightarrow> 't \<times> error option) \<Rightarrow> GraphQLResponse \<times> 't option \<Rightarrow> json
     \<Rightarrow> (GraphQLResponse \<times> 't option) \<times> error option" where
  "store_GraphQLResponse dec st JNull = (st, None)"
| "store_GraphQLResponse dec st (JObject ms) = store_members (store_GraphQLResponse_field dec) ms st"
| "store_GraphQLResponse dec st j = (st, Some (UnmarshalTypeError (kind_of j)))"

definition Decode ::
  "('m, 't) env \<Rightarrow> string \<Rightarrow> GraphQLResponse \<Rightarrow> 't option
     \<Rightarrow> GraphQLResponse \<times> 't option \<times> error option" where
  "Decode env buf gr tgt =
     (case parseValue env buf of
        Inl err \<Rightarrow> (gr, tgt, Some err)
      | Inr j \<Rightarrow>
          (case store_GraphQLResponse (decodeInto env) (gr, tgt) j of
             ((gr', tgt'), e) \<Rightarrow> (gr', tgt', e)))"

subsection \<open>Run\<close>

text \<open>
  What a call of \<^verbatim>\<open>Run\<close> leaves behind: the client (\<^verbatim>\<open>Run\<close> writes its field
  \<^verbatim>\<open>InspectRun\<close>), the object behind \<^verbatim>\<open>resp\<close>, the heap of header maps, the state of the
  network, the calls of the HTTP client that were made with what each returned, and the
  two results of the Go function.
\<close>

record ('m, 'w, 't) outcome =
  out_client :: "('m, 'w) Client"
  out_target :: "'t option"
  out_heap :: heap
  out_world :: 'w
  calls :: "(http_Request \<times> (error + http_Response)) list"
  gqlerrs :: "GraphQLError list option"
  failure :: "error option"

text \<open>
  \<^verbatim>\<open>func (c *Client) Run(ctx context.Context, req *Request, resp interface{}) ([]GraphQLError, error)\<close>,
  statement by statement. \<open>resp = None\<close> is the nil response object. The header maps
  the two loops range over are read when each loop starts; the map they write is the
  fresh one of the outbound request. A client whose \<^verbatim>\<open>httpClient\<close> is nil (one not made
  by \<^verbatim>\<open>NewClient\<close>) panics at the call of \<^verbatim>\<open>Do\<close>. The deferred
  \<^verbatim>\<open>res.Body.Close()\<close> releases the connection and has no part in the results.
\<close>

definition Run ::
  "('m, 't) env \<Rightarrow> heap \<Rightarrow> 'w \<Rightarrow> ('m, 'w) Client \<Rightarrow> Context \<Rightarrow> 'm Request \<Rightarrow> 't option
     \<Rightarrow> ('m, 'w, 't) outcome" where
  "Run env hp w c ctx req resp =
    (case Err ctx of
       Some done \<Rightarrow>
         \<lparr>out_client = c, out_target = resp, out_heap = hp, out_world = w, calls = [],
          gqlerrs = None, failure = Some done\<rparr>
     | None \<Rightarrow>
        (let c1 = c\<lparr>InspectRun := Map.empty\<rparr>;
             requestBodyObj = \<lparr>Query = q req, Variables = vars req, OperationName = opName req\<rparr>;
             c2 = c1\<lparr>InspectRun := (InspectRun c1)(''ReqBody'' \<mapsto> ReqBodyRef requestBodyObj)\<rparr>
         in case Encode env requestBodyObj of
              Inl err \<Rightarrow>
                \<lparr>out_client = c2, out_target = resp, out_heap = hp, out_world = w, calls = [],
                 gqlerrs = None, failure = Some (Wrap err ''encode body'')\<rparr>
            | Inr requestBody \<Rightarrow>
               (case http_NewRequest env hp ''POST'' (Endpoint c2) requestBody of
                  Inl err \<Rightarrow>
                    \<lparr>out_client = c2, out_target = resp, out_heap = hp, out_world = w, calls = [],
                     gqlerrs = None, failure = Some err\<rparr>
                | Inr (r0, hp0) \<Rightarrow>
                   (let r1 = r0\<lparr>Close := closeReq c2\<rparr>;
                        hp1 = add_headers (CanonicalMIMEHeaderKey env) hp0 (http_Request.Header r1)
                                (hget hp0 (Client.Header c2));
                        hp2 = add_headers (CanonicalMIMEHeaderKey env) hp1 (http_Request.Header r1)
                                (hget hp1 (Request.Header req));
                        c3 = c2\<lparr>InspectRun :=
                                  (InspectRun c2)(''ReqHeaders'' \<mapsto> HeaderRef (http_Request.Header r1))\<rparr>;
                        r = r1\<lparr>Ctx := ctx\<rparr>
                    in case httpClient c3 of
                         None \<Rightarrow>
                           \<lparr>out_client = c3, out_target = resp, out_heap = hp2, out_world = w,
                            calls = [], gqlerrs = None,
                            failure = Some (Panic ''nil pointer dereference'')\<rparr>
                       | Some Do \<Rightarrow>
                          (case Do w hp2 r of
                             (Inl err, w') \<Rightarrow>
                               \<lparr>out_client = c3, out_target = resp, out_heap = hp2, out_world = w',
                                calls = [(r, Inl err)], gqlerrs = None, failure = Some err\<rparr>
                           | (Inr res, w') \<Rightarrow>
                              (let c4 = c3\<lparr>InspectRun := (InspectRun c3)
                                         (''ResStatusCode'' \<mapsto> IntVal (StatusCode res),
                                          ''ResHeaders'' \<mapsto> HeaderVal (http_Response.Header res),
                                          ''ResCookies'' \<mapsto> CookiesVal (Cookies res),
                                          ''ResContentLength'' \<mapsto> IntVal (ContentLength res))\<rparr>
                               in if StatusCode res \<noteq> 200 then
                                    \<lparr>out_client = c4, out_target = resp, out_heap = hp2,
                                     out_world = w', calls = [(r, Inr res)], gqlerrs = None,
                                     failure = Some (ErrorString
                                       (''HTTP Error '' @ itoa (StatusCode res)
                                        @ '': graphql server returned a non-200 status code''))\<rparr>
                                  else
                                   (case http_Response.Body res of
                                      Inl err \<Rightarrow>
                                        \<lparr>out_client = c4, out_target = resp, out_heap = hp2,
                                         out_world = w', calls = [(r, Inr res)], gqlerrs = None,
                                         failure = Some (Wrap err ''reading body'')\<rparr>
                                    | Inr buf \<Rightarrow>
                                       (let c5 = c4\<lparr>InspectRun :=
                                                  (InspectRun c4)(''ResBody'' \<mapsto> StringVal buf)\<rparr>;
                                            gr = \<lparr>Data = (case resp of None \<Rightarrow> Generic JNull
                                                           | Some t \<Rightarrow> Injected),
                                                  Errors = []\<rparr>
                                        in case Decode env buf gr resp of
                                             (gr', resp', Some err) \<Rightarrow>
                                               \<lparr>out_client = c5, out_target = resp', out_heap = hp2,
                                                out_world = w', calls = [(r, Inr res)],
                                                gqlerrs = None,
                                                failure = Some (Wrap err ''decoding response'')\<rparr>
                                           | (gr', resp', None) \<Rightarrow>
                                               if length (Errors gr') > 0 then
                                                 \<lparr>out_client = c5, out_target = resp',
                                                  out_heap = hp2, out_world = w',
                                                  calls = [(r, Inr res)],
                                                  gqlerrs = Some (Errors gr'), failure = None\<rparr>
                                               else
                                                 \<lparr>out_client = c5, out_target = resp',
                                                  out_heap = hp2, out_world = w',
                                                  calls = [(r, Inr res)],
                                                  gqlerrs = None, failure = None\<rparr>))))))))"

subsection \<open>Requests and their options\<close>

text \<open>
  \<^verbatim>\<open>RequestOption\<close> is \<^verbatim>\<open>func(*Request)\<close>; the options of the package write fields of
  the request only. \<^verbatim>\<open>NewRequest\<close> allocates the empty header map \<^verbatim>\<open>http.Header{}\<close> and
  applies the options in order.
\<close>

type_synonym 'm RequestOption = "'m Request \<Rightarrow> 'm Request"

definition WithVars :: "'m option \<Rightarrow> 'm RequestOption" where
  "WithVars vs = (\<lambda>r. r\<lparr>vars := vs\<rparr>)"

definition WithOperationName :: "string \<Rightarrow> 'm RequestOption" where
  "WithOperationName s = (\<lambda>r. if s \<noteq> [] then r\<lparr>opName := Some s\<rparr> else r)"

definition NewRequest :: "heap \<Rightarrow> string \<Rightarrow> 'm RequestOption list \<Rightarrow> 'm Request \<times> heap" where
  "NewRequest hp query opts =
     (fold (\<lambda>optFn req. optFn req) opts
        \<lparr>q = query, vars = None, opName = None, Header = Some (length hp)\<rparr>,
      hp @ [[]])"

subsection \<open>Notions used to state the properties\<close>

text \<open>
  \<open>added cn h src\<close>: the map \<open>h\<close> after \<^verbatim>\<open>Add\<close> of every value of every entry of \<open>src\<close>,
  in order. \<open>entries_for cn src k\<close>: the values, in order, of the entries of \<open>src\<close>
  whose key has the canonical form \<open>k\<close>.
\<close>

definition added :: "(string \<Rightarrow> string) \<Rightarrow> header \<Rightarrow> header \<Rightarrow> header" where
  "added cn h src = foldl (\<lambda>h (key, vs). foldl (\<lambda>h v. Add cn h key v) h vs) h src"

definition entries_for :: "(string \<Rightarrow> string) \<Rightarrow> header \<Rightarrow> string \<Rightarrow> string list" where
  "entries_for cn src k = concat (map snd (filter (\<lambda>e. cn (fst e) = k) src))"

text \<open>
  \<open>members_for names name ms\<close>: the values of the members of an object whose key the
  decoder matches to the field \<open>name\<close> of a struct with the fields \<open>names\<close>.
  \<open>loc_json (l, c)\<close> is the document \<^verbatim>\<open>{"line": l, "column": c}\<close>, and
  \<open>loc_of (l, c)\<close> the Go value with that line and column.
\<close>

definition members_for :: "string list \<Rightarrow> string \<Rightarrow> (string \<times> json) list \<Rightarrow> json list" where
  "members_for names name ms = map snd (filter (\<lambda>m. find_field names (fst m) = Some name) ms)"

definition loc_json :: "int \<times> int \<Rightarrow> json" where
  "loc_json lc = JObject [(''line'', JInt (fst lc)), (''column'', JInt (snd lc))]"

definition loc_of :: "int \<times> int \<Rightarrow> Location" where
  "loc_of lc = \<lparr>Line = fst lc, Column = snd lc\<rparr>"

text \<open>The response struct as \<^verbatim>\<open>Run\<close> hands it to the decoder (\<^verbatim>\<open>gr.Data = resp\<close>).\<close>

definition fresh_response :: "'t option \<Rightarrow> GraphQLResponse" where
  "fresh_response resp =
     \<lparr>Data = (case resp of None \<Rightarrow> Generic JNull | Some t \<Rightarrow> Injected), Errors = []\<rparr>"

text \<open>
  The stages of \<^verbatim>\<open>Run\<close>, named, so that a property can speak of them: the body
  object, the heap once both header sets are added to the fresh map of the outbound
  request, the request handed to the HTTP client, the client with what has been
  recorded up to the call, and what \<^verbatim>\<open>Run\<close> does with a response (lines 181 to 211).
  \<open>Run_stages\<close> below proves that \<^verbatim>\<open>Run\<close> is made of them.
\<close>

definition request_body :: "'m Request \<Rightarrow> 'm RequestBody" where
  "request_body req = \<lparr>Query = q req, Variables = vars req, OperationName = opName req\<rparr>"

definition outbound_heap :: "('m, 't) env \<Rightarrow> heap \<Rightarrow> ('m, 'w) Client \<Rightarrow> 'm Request \<Rightarrow> heap" where
  "outbound_heap env hp c req =
     (let hp1 = add_headers (CanonicalMIMEHeaderKey env) (hp @ [[]]) (length hp)
                  (hget (hp @ [[]]) (Client.Header c))
      in add_headers (CanonicalMIMEHeaderKey env) hp1 (length hp) (hget hp1 (Request.Header req)))"

definition outbound_request :: "heap \<Rightarrow> ('m, 'w) Client \<Rightarrow> Context \<Rightarrow> string \<Rightarrow> http_Request" where
  "outbound_request hp c ctx body =
     \<lparr>Method = ''POST'', URL = Endpoint c, Body = body, Close = closeReq c,
      Header = length hp, Ctx = ctx\<rparr>"

definition recorded_body :: "('m, 'w) Client \<Rightarrow> 'm Request \<Rightarrow> ('m, 'w) Client" where
  "recorded_body c req = c\<lparr>InspectRun := [''ReqBody'' \<mapsto> ReqBodyRef (request_body req)]\<rparr>"

definition recorded_request :: "heap \<Rightarrow> ('m, 'w) Client \<Rightarrow> 'm Request \<Rightarrow> ('m, 'w) Client" where
  "recorded_request hp c req =
     c\<lparr>InspectRun := [''ReqBody'' \<mapsto> ReqBodyRef (request_body req),
                      ''ReqHeaders'' \<mapsto> HeaderRef (length hp)]\<rparr>"

definition after_response ::
  "('m, 't) env \<Rightarrow> ('m, 'w) Client \<Rightarrow> 't option \<Rightarrow> http_Response
     \<Rightarrow> ('m, 'w) Client \<times> 't option \<times> GraphQLError list option \<times> error option" where
  "after_response env c3 resp res =
     (let c4 = c3\<lparr>InspectRun := (InspectRun c3)
                  (''ResStatusCode'' \<mapsto> IntVal (StatusCode res),
                   ''ResHeaders'' \<mapsto> HeaderVal (http_Response.Header res),
                   ''ResCookies'' \<mapsto> CookiesVal (Cookies res),
                   ''ResContentLength'' \<mapsto> IntVal (ContentLength res))\<rparr>
      in if StatusCode res \<noteq> 200 then
           (c4, resp, None,
            Some (ErrorString (''HTTP Error '' @ itoa (StatusCode res)
                               @ '': graphql server returned a non-200 status code'')))
         else
          (case http_Response.Body res of
             Inl err \<Rightarrow> (c4, resp, None, Some (Wrap err ''reading body''))
           | Inr buf \<Rightarrow>
              (let c5 = c4\<lparr>InspectRun := (InspectRun c4)(''ResBody'' \<mapsto> StringVal buf)\<rparr>
               in case Decode env buf (fresh_response resp) resp of
                    (gr', resp', Some err) \<Rightarrow> (c5, resp', None, Some (Wrap err ''decoding response''))
                  | (gr', resp', None) \<Rightarrow>
                      if length (Errors gr') > 0 then (c5, resp', Some (Errors gr'), None)
                      else (c5, resp', None, None))))"

definition stopped ::
  "('m, 'w) Client \<Rightarrow> 't option \<Rightarrow> heap \<Rightarrow> 'w \<Rightarrow> error \<Rightarrow> ('m, 'w, 't) outcome" where
  "stopped c resp hp w err =
     \<lparr>out_client = c, out_target = resp, out_heap = hp, out_world = w, calls = [],
      gqlerrs = None, failure = Some err\<rparr>"

subsection \<open>The tests of the package, as values\<close>

text \<open>
  The fixtures of \<^verbatim>\<open>graphqlgo_test.go\<close>, to run the model on: collaborators that do
  what the library does on the texts of the tests, the test server (it counts its
  calls and answers every request with one response) and the documents the tests
  serve. The variables map is given by its JSON text; the target is a
  \<^verbatim>\<open>map[string]string\<close>, a list of entries.
\<close>

definition lower :: "char \<Rightarrow> char" where
  "lower c = (let n = (of_char c :: int) in if 65 \<le> n \<and> n \<le> 90 then char_of (n + 32) else c)"

fun capitalise :: "bool \<Rightarrow> string \<Rightarrow> string" where
  "capitalise up [] = []"
| "capitalise up (c # cs) = (if up then upper c else lower c) # capitalise (c = CHR ''-'') cs"

definition key_char :: "char \<Rightarrow> bool" where
  "key_char c = (let n = (of_char c :: int) in
     (97 \<le> n \<and> n \<le> 122) \<or> (65 \<le> n \<and> n \<le> 90) \<or> (48 \<le> n \<and> n \<le> 57) \<or> c = CHR ''-'')"

definition test_canon :: "string \<Rightarrow> string" where
  "test_canon key = (if list_all key_char key then capitalise True key else key)"

fun string_members :: "(string \<times> json) list \<Rightarrow> (string \<times> string) list \<times> error option" where
  "string_members [] = ([], None)"
| "string_members ((k, JString s) # ms) = (let (xs, e) = string_members ms in ((k, s) # xs, e))"
| "string_members ((k, v) # ms) =
     (let (xs, e) = string_members ms in (xs, orElse (Some (UnmarshalTypeError (kind_of v))) e))"

fun store_string_map :: "json \<Rightarrow> (string \<times> string) list \<Rightarrow> (string \<times> string) list \<times> error option" where
  "store_string_map (JObject ms) cur = (let (xs, e) = string_members ms in (cur @ xs, e))"
| "store_string_map j cur = (cur, Some (UnmarshalTypeError (kind_of j)))"

definition doc_data :: string where
  \<open>doc_data = ''{"data":{"something":"yes"}}''\<close>

definition doc_errors :: string where
  \<open>doc_errors = ''{"data":{"something":"yes"},"errors":[{"message":"not found","locations":[{"line":1,"column":2}],"path":["some",1],"extensions":{"code":"failcode"}}]}''\<close>

definition doc_bad :: string where
  \<open>doc_bad = ''{"errors":[{"message":"badbad"}]}''\<close>

definition test_error_members :: "(string \<times> json) list" where
  "test_error_members =
     [(''message'', JString ''not found''),
      (''locations'', JArray [JObject [(''line'', JInt 1), (''column'', JInt 2)]]),
      (''path'', JArray [JString ''some'', JInt 1]),
      (''extensions'', JObject [(''code'', JString ''failcode'')])]"

definition test_envelope_members :: "(string \<times> json) list" where
  "test_envelope_members =
     [(''data'', JObject [(''something'', JString ''yes'')]),
      (''errors'', JArray [JObject test_error_members])]"

definition test_documents :: "(string \<times> json) list" where
  "test_documents =
     [(doc_data, JObject [(''data'', JObject [(''something'', JString ''yes'')])]),
      (doc_errors, JObject test_envelope_members),
      (doc_bad, JObject [(''errors'', JArray [JObject [(''message'', JString ''badbad'')]])])]"

definition test_scan :: "string \<Rightarrow> error + json" where
  "test_scan buf = (case map_of test_documents buf of
                      None \<Rightarrow> Inl (ErrorString ''invalid character'')
                    | Some j \<Rightarrow> Inr j)"

definition test_env :: "(string, (string \<times> string) list) env" where
  "test_env = \<lparr>encString = (\<lambda>s. [CHR 0x22] @ s @ [CHR 0x22]), encMap = Inr,
               parseURL = (\<lambda>url. None), CanonicalMIMEHeaderKey = test_canon,
               parseValue = test_scan, decodeInto = store_string_map\<rparr>"

definition test_response :: "int \<Rightarrow> string \<Rightarrow> http_Response" where
  "test_response status body =
     \<lparr>StatusCode = status, Header = [], Cookies = [], ContentLength = int (length body),
      Body = Inr body\<rparr>"

definition test_server :: "int \<Rightarrow> string \<Rightarrow> nat transport" where
  "test_server status body = (\<lambda>n hp r. (Inr (test_response status body), Suc n))"

text \<open>
  Address 0 is the header map of the client (the two default headers and the ones of
  \<^verbatim>\<open>WithHeaders\<close>), address 1 the header map of a request.
\<close>

definition test_heap :: heap where
  "test_heap = [[(''Content-Type'', [''application/json; charset=utf-8'']),
                 (''Accept'', [''application/json; charset=utf-8'']),
                 (''X-Some-Fromcli'', [''cliVal'']),
                 (''X-A'', [''1''])],
                [(''X-Some-Fromreq'', [''reqVal'']),
                 (''x-a'', [''2''])]]"

definition test_client :: "int \<Rightarrow> string \<Rightarrow> (string, nat) Client" where
  "test_client status body =
     \<lparr>Endpoint = ''http://127.0.0.1:8080'', httpClient = Some (test_server status body),
      Header = Some 0, closeReq = False, InspectRun = Map.empty\<rparr>"

definition test_request :: "string Request" where
  "test_request = \<lparr>q = ''query {}'', vars = None, opName = None, Header = None\<rparr>"

definition test_request_headers :: "string Request" where
  "test_request_headers = \<lparr>q = ''query {}'', vars = None, opName = None, Header = Some 1\<rparr>"

definition test_envelope :: string where
  \<open>test_envelope = ''{"query":"query {}","variables":null,"operationName":null}'' @ [CHR 0x0A]\<close>

definition test_outbound :: "heap \<Rightarrow> http_Request" where
  "test_outbound hp =
     \<lparr>Method = ''POST'', URL = ''http://127.0.0.1:8080'', Body = test_envelope, Close = False,
      Header = length hp, Ctx = \<lparr>Err = None\<rparr>\<rparr>"

definition test_error :: GraphQLError where
  "test_error = \<lparr>Message = ''not found'', Locations = [\<lparr>Line = 1, Column = 2\<rparr>],
                 Path = [JString ''some'', JInt 1],
                 Extensions = [''code'' \<mapsto> JString ''failcode'']\<rparr>"

section \<open>Lemmas\<close>

subsection \<open>Header maps\<close>

lemma values_of_Nil [simp]: "values_of [] k = []"
  by (simp add: values_of_def)

lemma values_of_append_value:
  "values_of (append_value h key v) k = (if k = key then values_of h k @ [v] else values_of h k)"
  by (induction h key v rule: append_value.induct) (auto simp: values_of_def)

lemma values_of_Add_values:
  "values_of (foldl (\<lambda>h v. Add cn h key v) h vs) k =
     (if k = cn key then values_of h k @ vs else values_of h k)"
  by (induction vs arbitrary: h) (auto simp: Add_def values_of_append_value)

lemma values_of_added:
  "values_of (added cn h src) k = values_of h k @ entries_for cn src k"
  unfolding added_def entries_for_def
  by (induction src arbitrary: h) (auto simp: values_of_Add_values)

lemma add_values_heap:
  "a < length hp \<Longrightarrow> add_values cn hp a key vs = hp[a := foldl (\<lambda>h v. Add cn h key v) (hp ! a) vs]"
  by (induction vs arbitrary: hp) auto

lemma add_headers_heap:
  "a < length hp \<Longrightarrow> add_headers cn hp a src = hp[a := added cn (hp ! a) src]"
  unfolding added_def
  by (induction src arbitrary: hp) (auto simp: add_values_heap)

lemma hget_append: "allocated hp p \<Longrightarrow> hget (hp @ xs) p = hget hp p"
  by (auto simp: hget_def allocated_def nth_append split: option.splits)

lemma hget_update_fresh: "allocated hp p \<Longrightarrow> hget ((hp @ [x])[length hp := y]) p = hget hp p"
  by (auto simp: hget_def allocated_def nth_append split: option.splits)

lemma merged_heap:
  assumes "allocated hp pc" "allocated hp pr"
  shows "add_headers cn (add_headers cn (hp @ [[]]) (length hp) (hget (hp @ [[]]) pc)) (length hp)
           (hget (add_headers cn (hp @ [[]]) (length hp) (hget (hp @ [[]]) pc)) pr)
         = hp @ [added cn (added cn [] (hget hp pc)) (hget hp pr)]"
  using assms by (simp add: add_headers_heap hget_append hget_update_fresh)

lemma merged_heap_prefix:
  "take (length hp)
     (add_headers cn (add_headers cn (hp @ [[]]) (length hp) src1) (length hp) src2) = hp"
  by (simp add: add_headers_heap)

subsection \<open>Run, by stages\<close>

lemma Run_stages:
  "Run env hp w c ctx req resp =
    (case Err ctx of
       Some done \<Rightarrow> stopped c resp hp w done
     | None \<Rightarrow>
        (case Encode env (request_body req) of
           Inl err \<Rightarrow> stopped (recorded_body c req) resp hp w (Wrap err ''encode body'')
         | Inr body \<Rightarrow>
            (case parseURL env (Endpoint c) of
               Some err \<Rightarrow> stopped (recorded_body c req) resp hp w err
             | None \<Rightarrow>
                (case httpClient c of
                   None \<Rightarrow> stopped (recorded_request hp c req) resp (outbound_heap env hp c req) w
                             (Panic ''nil pointer dereference'')
                 | Some Do \<Rightarrow>
                    (case Do w (outbound_heap env hp c req) (outbound_request hp c ctx body) of
                       (Inl err, w') \<Rightarrow>
                         \<lparr>out_client = recorded_request hp c req, out_target = resp,
                          out_heap = outbound_heap env hp c req, out_world = w',
                          calls = [(outbound_request hp c ctx body, Inl err)],
                          gqlerrs = None, failure = Some err\<rparr>
                     | (Inr res, w') \<Rightarrow>
                         (case after_response env (recorded_request hp c req) resp res of
                            (c', resp', es, f) \<Rightarrow>
                              \<lparr>out_client = c', out_target = resp',
                               out_heap = outbound_heap env hp c req, out_world = w',
                               calls = [(outbound_request hp c ctx body, Inr res)],
                               gqlerrs = es, failure = f\<rparr>))))))"
proof (cases "Err ctx")
  case (Some e)
  then show ?thesis by (simp add: Run_def stopped_def)
next
  case ctx: None
  show ?thesis
  proof (cases "Encode env (request_body req)")
    case (Inl err)
    with ctx show ?thesis
      by (simp add: Run_def Let_def request_body_def recorded_body_def stopped_def)
  next
    case enc: (Inr body)
    show ?thesis
    proof (cases "parseURL env (Endpoint c)")
      case (Some err)
      with ctx enc show ?thesis
        by (simp add: Run_def Let_def request_body_def recorded_body_def stopped_def
              http_NewRequest_def)
    next
      case url: None
      show ?thesis
      proof (cases "httpClient c")
        case None
        with ctx enc url show ?thesis
          by (simp add: Run_def Let_def request_body_def recorded_request_def stopped_def
                http_NewRequest_def outbound_heap_def)
      next
        case client: (Some Do)
        obtain x w' where
          call: "Do w (outbound_heap env hp c req) (outbound_request hp c ctx body) = (x, w')"
          by (cases "Do w (outbound_heap env hp c req) (outbound_request hp c ctx body)")
        show ?thesis
        proof (cases x)
          case (Inl err)
          with ctx enc url client call show ?thesis
            by (simp add: Run_def Let_def request_body_def recorded_request_def
                  http_NewRequest_def outbound_heap_def outbound_request_def)
        next
          case (Inr res)
          with ctx enc url client call show ?thesis
            by (simp add: Run_def Let_def request_body_def recorded_request_def
                  http_NewRequest_def outbound_heap_def outbound_request_def
                  after_response_def fresh_response_def
                split: sum.split prod.split option.split)
        qed
      qed
    qed
  qed
qed

subsection \<open>Decoding\<close>

lemma find_field_line: "find_field Location_fields ''line'' = Some ''Line''"
  by (simp add: find_field_def Location_fields_def upper_def char_of_def)

lemma find_field_column: "find_field Location_fields ''column'' = Some ''Column''"
  by (simp add: find_field_def Location_fields_def upper_def char_of_def)

lemma store_Location_loc_json:
  "fits_int (fst lc) \<Longrightarrow> fits_int (snd lc) \<Longrightarrow> store_Location cur (loc_json lc) = (loc_of lc, None)"
  by (simp add: loc_json_def loc_of_def store_Location_field_def find_field_line find_field_column
      orElse_def)

lemma store_elems_locs:
  "\<forall>lc \<in> set lcs. fits_int (fst lc) \<and> fits_int (snd lc) \<Longrightarrow>
     store_elems store_Location z cur (map loc_json lcs) = (map loc_of lcs, None)"
  by (induction lcs arbitrary: cur) (auto simp: store_Location_loc_json orElse_def)

lemma store_elems_length: "length (fst (store_elems f z cur js)) = length js"
  by (induction js arbitrary: cur) (auto simp: split_beta)

lemma store_elems_nth:
  "i < length js \<Longrightarrow>
     fst (store_elems f z cur js) ! i = fst (f (if i < length cur then cur ! i else z) (js ! i))"
proof (induction js arbitrary: cur i)
  case Nil
  then show ?case by simp
next
  case (Cons j js)
  show ?case
  proof (cases i)
    case 0
    then show ?thesis by (cases cur) (auto simp: split_beta)
  next
    case (Suc n)
    with Cons.prems have "n < length js" by simp
    from Cons.IH[OF this, of "tl cur"] Suc show ?thesis
      by (cases cur) (auto simp: split_beta)
  qed
qed

lemma Locations_other_field:
  "find_field GraphQLError_fields k \<noteq> Some ''locations'' \<Longrightarrow>
     Locations (fst (store_GraphQLError_field k v g)) = Locations g"
  by (auto simp: store_GraphQLError_field_def split_beta split: option.splits)

lemma Locations_locations_field:
  "find_field GraphQLError_fields k = Some ''locations'' \<Longrightarrow>
     Locations (fst (store_GraphQLError_field k v g))
       = fst (store_slice store_Location zero_Location (Locations g) v)"
  by (auto simp: store_GraphQLError_field_def split_beta)

lemma Locations_no_member:
  "members_for GraphQLError_fields ''locations'' ms = [] \<Longrightarrow>
     Locations (fst (store_members store_GraphQLError_field ms g)) = Locations g"
  by (induction ms arbitrary: g)
     (auto simp: members_for_def split_beta Locations_other_field split: if_splits)

lemma Locations_one_member:
  "members_for GraphQLError_fields ''locations'' ms = [v] \<Longrightarrow>
     Locations (fst (store_members store_GraphQLError_field ms g))
       = fst (store_slice store_Location zero_Location (Locations g) v)"
proof (induction ms arbitrary: g)
  case Nil
  then show ?case by (simp add: members_for_def)
next
  case (Cons m ms)
  obtain k v' where m: "m = (k, v')" by (cases m)
  show ?case
  proof (cases "find_field GraphQLError_fields k = Some ''locations''")
    case True
    with Cons.prems m have v: "v' = v" and rest: "members_for GraphQLError_fields ''locations'' ms = []"
      by (auto simp: members_for_def)
    show ?thesis
      using Locations_no_member[OF rest] Locations_locations_field[OF True]
      by (auto simp: m v split_beta)
  next
    case False
    with Cons.prems m have "members_for GraphQLError_fields ''locations'' ms = [v]"
      by (auto simp: members_for_def)
    from Cons.IH[OF this] Locations_other_field[OF False] show ?thesis
      by (auto simp: m split_beta)
  qed
qed


lemma find_field_in: "find_field names k = Some n \<Longrightarrow> n \<in> set names"
  by (auto simp: find_field_def find_Some_iff split: if_splits)

lemma Errors_other_field:
  "find_field GraphQLResponse_fields k \<noteq> Some ''errors'' \<Longrightarrow>
     Errors (fst (fst (store_GraphQLResponse_field dec k v st))) = Errors (fst st)"
  using find_field_in[of GraphQLResponse_fields k]
  by (cases st)
     (auto simp: store_GraphQLResponse_field_def GraphQLResponse_fields_def split_beta
           split: option.splits data_slot.splits json.splits)

lemma Errors_errors_field:
  "find_field GraphQLResponse_fields k = Some ''errors'' \<Longrightarrow>
     Errors (fst (fst (store_GraphQLResponse_field dec k v st)))
       = fst (store_slice store_GraphQLError zero_GraphQLError (Errors (fst st)) v)"
  by (cases st) (auto simp: store_GraphQLResponse_field_def split_beta)

lemma Errors_no_member:
  "members_for GraphQLResponse_fields ''errors'' ms = [] \<Longrightarrow>
     Errors (fst (fst (store_members (store_GraphQLResponse_field dec) ms st))) = Errors (fst st)"
proof (induction ms arbitrary: st)
  case Nil
  then show ?case by simp
next
  case (Cons m ms)
  obtain k v' where m: "m = (k, v')" by (cases m)
  from Cons.prems m have other: "find_field GraphQLResponse_fields k \<noteq> Some ''errors''"
    and rest: "members_for GraphQLResponse_fields ''errors'' ms = []"
    by (simp_all add: members_for_def split: if_splits)
  from Cons.IH[OF rest, of "fst (store_GraphQLResponse_field dec k v' st)"]
    Errors_other_field[OF other, of dec v' st]
  show ?case by (simp add: m split_beta)
qed

lemma Errors_one_member:
  "members_for GraphQLResponse_fields ''errors'' ms = [v] \<Longrightarrow>
     Errors (fst (fst (store_members (store_GraphQLResponse_field dec) ms st)))
       = fst (store_slice store_GraphQLError zero_GraphQLError (Errors (fst st)) v)"
proof (induction ms arbitrary: st)
  case Nil
  then show ?case by (simp add: members_for_def)
next
  case (Cons m ms)
  obtain k v' where m: "m = (k, v')" by (cases m)
  show ?case
  proof (cases "find_field GraphQLResponse_fields k = Some ''errors''")
    case True
    with Cons.prems m have v: "v' = v" and rest: "members_for GraphQLResponse_fields ''errors'' ms = []"
      by (auto simp: members_for_def)
    show ?thesis
      using Errors_no_member[OF rest, of dec "fst (store_GraphQLResponse_field dec k v st)"]
        Errors_errors_field[OF True, of dec v st]
      by (simp add: m v split_beta)
  next
    case False
    with Cons.prems m have "members_for GraphQLResponse_fields ''errors'' ms = [v]"
      by (auto simp: members_for_def)
    from Cons.IH[OF this, of "fst (store_GraphQLResponse_field dec k v' st)"]
      Errors_other_field[OF False, of dec v' st]
    show ?thesis by (simp add: m split_beta)
  qed
qed

text \<open>The target.\<close>

lemma target_other_field:
  "find_field GraphQLResponse_fields k \<noteq> Some ''data'' \<Longrightarrow>
     snd (fst (store_GraphQLResponse_field dec k v st)) = snd st
     \<and> Data (fst (fst (store_GraphQLResponse_field dec k v st))) = Data (fst st)"
  by (cases st) (auto simp: store_GraphQLResponse_field_def split_beta split: option.splits)

lemma target_no_member:
  "members_for GraphQLResponse_fields ''data'' ms = [] \<Longrightarrow>
     snd (fst (store_members (store_GraphQLResponse_field dec) ms st)) = snd st"
proof (induction ms arbitrary: st)
  case Nil
  then show ?case by simp
next
  case (Cons m ms)
  obtain k v' where m: "m = (k, v')" by (cases m)
  from Cons.prems m have other: "find_field GraphQLResponse_fields k \<noteq> Some ''data''"
    and rest: "members_for GraphQLResponse_fields ''data'' ms = []"
    by (simp_all add: members_for_def split: if_splits)
  from Cons.IH[OF rest, of "fst (store_GraphQLResponse_field dec k v' st)"]
    target_other_field[OF other, of dec v' st]
  show ?case by (simp add: m split_beta)
qed

lemma target_data_field:
  "find_field GraphQLResponse_fields k = Some ''data'' \<Longrightarrow> Data gr = Injected \<Longrightarrow> v \<noteq> JNull \<Longrightarrow>
     snd (fst (store_GraphQLResponse_field dec k v (gr, Some t))) = Some (fst (dec v t))"
  by (auto simp: store_GraphQLResponse_field_def split_beta split: json.splits)

lemma target_one_member:
  "members_for GraphQLResponse_fields ''data'' ms = [dv] \<Longrightarrow> dv \<noteq> JNull \<Longrightarrow> Data gr = Injected \<Longrightarrow>
     snd (fst (store_members (store_GraphQLResponse_field dec) ms (gr, Some t))) = Some (fst (dec dv t))"
proof (induction ms arbitrary: gr)
  case Nil
  then show ?case by (simp add: members_for_def)
next
  case (Cons m ms)
  obtain k v' where m: "m = (k, v')" by (cases m)
  show ?case
  proof (cases "find_field GraphQLResponse_fields k = Some ''data''")
    case True
    with Cons.prems m have v: "v' = dv" and rest: "members_for GraphQLResponse_fields ''data'' ms = []"
      by (auto simp: members_for_def)
    show ?thesis
      using target_no_member[OF rest, of dec "fst (store_GraphQLResponse_field dec k dv (gr, Some t))"]
        target_data_field[OF True Cons.prems(3) Cons.prems(2), of dec t]
      by (simp add: m v split_beta)
  next
    case False
    with Cons.prems m have rest: "members_for GraphQLResponse_fields ''data'' ms = [dv]"
      by (auto simp: members_for_def)
    obtain gr1 tgt1 where st1: "fst (store_GraphQLResponse_field dec k v' (gr, Some t)) = (gr1, tgt1)"
      by (cases "fst (store_GraphQLResponse_field dec k v' (gr, Some t))")
    from target_other_field[OF False, of dec v' "(gr, Some t)"] st1 Cons.prems(3)
    have "tgt1 = Some t" "Data gr1 = Injected" by auto
    with Cons.IH[OF rest Cons.prems(2), of gr1] st1 show ?thesis
      by (simp add: m split_beta)
  qed
qed

subsection \<open>The paths through Run\<close>

lemma outbound_heap_allocated:
  assumes "allocated hp (Client.Header c)" and "allocated hp (Request.Header req)"
  shows "outbound_heap env hp c req
           = hp @ [added (CanonicalMIMEHeaderKey env)
                     (added (CanonicalMIMEHeaderKey env) [] (hget hp (Client.Header c)))
                     (hget hp (Request.Header req))]"
  using merged_heap[OF assms, of "CanonicalMIMEHeaderKey env"]
  by (simp add: outbound_heap_def Let_def)

lemma outbound_heap_prefix: "take (length hp) (outbound_heap env hp c req) = hp"
  by (simp add: outbound_heap_def Let_def merged_heap_prefix)

lemma Run_calls:
  assumes "calls (Run env hp w c ctx req resp) = [(r, x)]"
  shows "\<exists>body Do w'. Err ctx = None
           \<and> Encode env (request_body req) = Inr body
           \<and> parseURL env (Endpoint c) = None
           \<and> httpClient c = Some Do
           \<and> r = outbound_request hp c ctx body
           \<and> out_heap (Run env hp w c ctx req resp) = outbound_heap env hp c req
           \<and> Do w (outbound_heap env hp c req) r = (x, w')
           \<and> out_world (Run env hp w c ctx req resp) = w'"
  using assms
  by (auto simp: Run_stages stopped_def split: option.splits sum.splits prod.splits)

lemma Run_response:
  assumes "calls (Run env hp w c ctx req resp) = [(r, Inr res)]"
  shows "(out_client (Run env hp w c ctx req resp), out_target (Run env hp w c ctx req resp),
          gqlerrs (Run env hp w c ctx req resp), failure (Run env hp w c ctx req resp))
           = after_response env (recorded_request hp c req) resp res"
  using assms
  by (auto simp: Run_stages stopped_def split: option.splits sum.splits prod.splits)

lemma Run_heap_prefix:
  "take (length hp) (out_heap (Run env hp w c ctx req resp)) = hp"
  by (auto simp: Run_stages stopped_def outbound_heap_prefix
           split: option.splits sum.splits prod.splits)

lemma after_response_client:
  "Endpoint (fst (after_response env c3 resp res)) = Endpoint c3
   \<and> httpClient (fst (after_response env c3 resp res)) = httpClient c3
   \<and> Client.Header (fst (after_response env c3 resp res)) = Client.Header c3
   \<and> closeReq (fst (after_response env c3 resp res)) = closeReq c3"
  by (auto simp: after_response_def Let_def split: option.splits sum.splits prod.splits)

lemma recorded_fields [simp]:
  "Endpoint (recorded_body c req) = Endpoint c"
  "httpClient (recorded_body c req) = httpClient c"
  "Client.Header (recorded_body c req) = Client.Header c"
  "closeReq (recorded_body c req) = closeReq c"
  "Endpoint (recorded_request hp c req) = Endpoint c"
  "httpClient (recorded_request hp c req) = httpClient c"
  "Client.Header (recorded_request hp c req) = Client.Header c"
  "closeReq (recorded_request hp c req) = closeReq c"
  by (simp_all add: recorded_body_def recorded_request_def)

lemma Run_client:
  "Endpoint (out_client (Run env hp w c ctx req resp)) = Endpoint c
   \<and> httpClient (out_client (Run env hp w c ctx req resp)) = httpClient c
   \<and> Client.Header (out_client (Run env hp w c ctx req resp)) = Client.Header c
   \<and> closeReq (out_client (Run env hp w c ctx req resp)) = closeReq c"
proof -
  have *: "Endpoint c' = Endpoint c \<and> httpClient c' = httpClient c
            \<and> Client.Header c' = Client.Header c \<and> closeReq c' = closeReq c"
    if "after_response env (recorded_request hp c req) resp res = (c', t, es, f)"
    for res c' t es f
    using after_response_client[of env "recorded_request hp c req" resp res] that by simp
  show ?thesis
    by (auto simp: Run_stages stopped_def split: option.splits sum.splits prod.splits dest: *)
qed

lemma after_response_not_200:
  "StatusCode res \<noteq> 200 \<Longrightarrow>
     after_response env c3 resp res =
       (c3\<lparr>InspectRun := (InspectRun c3)
             (''ResStatusCode'' \<mapsto> IntVal (StatusCode res),
              ''ResHeaders'' \<mapsto> HeaderVal (http_Response.Header res),
              ''ResCookies'' \<mapsto> CookiesVal (Cookies res),
              ''ResContentLength'' \<mapsto> IntVal (ContentLength res))\<rparr>,
        resp, None,
        Some (ErrorString (''HTTP Error '' @ itoa (StatusCode res)
                           @ '': graphql server returned a non-200 status code'')))"
  by (simp add: after_response_def)

lemma after_response_200:
  assumes "StatusCode res = 200" and "http_Response.Body res = Inr buf"
    and "Decode env buf (fresh_response resp) resp = (gr, resp', e)"
  shows "snd (after_response env c3 resp res) =
           (resp',
            if e = None \<and> Errors gr \<noteq> [] then Some (Errors gr) else None,
            case e of None \<Rightarrow> None | Some err \<Rightarrow> Some (Wrap err ''decoding response''))"
  using assms by (auto simp: after_response_def Let_def split: option.splits)

lemma after_response_success:
  assumes "snd (snd (snd (after_response env c3 resp res))) = None"
  shows "\<exists>buf gr resp'. StatusCode res = 200 \<and> http_Response.Body res = Inr buf
           \<and> Decode env buf (fresh_response resp) resp = (gr, resp', None)"
  using assms
  by (auto simp: after_response_def Let_def split: option.splits sum.splits prod.splits if_splits)

lemma after_response_same_client:
  "fst (after_response env c3 resp1 res) = fst (after_response env c3 resp2 res)"
  by (auto simp: after_response_def Let_def split: option.splits sum.splits prod.splits)

lemma Run_same_exchange:
  "calls (Run env hp w c ctx req resp1) = calls (Run env hp w c ctx req resp2)
   \<and> out_world (Run env hp w c ctx req resp1) = out_world (Run env hp w c ctx req resp2)
   \<and> out_heap (Run env hp w c ctx req resp1) = out_heap (Run env hp w c ctx req resp2)
   \<and> out_client (Run env hp w c ctx req resp1) = out_client (Run env hp w c ctx req resp2)"
proof -
  have "\<And>res. fst (after_response env (recorded_request hp c req) resp1 res)
              = fst (after_response env (recorded_request hp c req) resp2 res)"
    by (rule after_response_same_client)
  then show ?thesis
    by (auto simp: Run_stages stopped_def split: option.splits sum.splits prod.splits
             dest: arg_cong[where f = fst])
qed

lemma Run_success:
  assumes "failure (Run env hp w c ctx req resp) = None"
  shows "\<exists>r res. calls (Run env hp w c ctx req resp) = [(r, Inr res)]"
  using assms
  by (auto simp: Run_stages stopped_def split: option.splits sum.splits prod.splits)

lemma Encode_other_decoder:
  "Encode (env\<lparr>parseValue := scan, decodeInto := dec\<rparr>) b = Encode env b"
  by (simp add: Encode_def split: option.split sum.split)

lemma outbound_heap_other_decoder:
  "outbound_heap (env\<lparr>parseValue := scan, decodeInto := dec\<rparr>) hp c req = outbound_heap env hp c req"
  by (simp add: outbound_heap_def)

lemma stages_any_snapshot [simp]:
  "recorded_body (c\<lparr>InspectRun := m\<rparr>) req = recorded_body c req"
  "recorded_request hp (c\<lparr>InspectRun := m\<rparr>) req = recorded_request hp c req"
  "outbound_heap env hp (c\<lparr>InspectRun := m\<rparr>) req = outbound_heap env hp c req"
  "outbound_request hp (c\<lparr>InspectRun := m\<rparr>) ctx body = outbound_request hp c ctx body"
  by (simp_all add: recorded_body_def recorded_request_def outbound_heap_def outbound_request_def)

lemma Run_any_snapshot:
  "Err ctx = None \<Longrightarrow>
     Run env hp w (c\<lparr>InspectRun := m\<rparr>) ctx req resp = Run env hp w c ctx req resp"
  by (simp add: Run_stages split: option.split sum.split prod.split)

lemma sent_values:
  assumes "calls (Run env hp w c ctx req resp) = [(r, x)]"
  shows "allocated hp (Client.Header c) \<Longrightarrow> allocated hp (Request.Header req) \<Longrightarrow>
         values_of (out_heap (Run env hp w c ctx req resp) ! http_Request.Header r) k
           = concat (map snd (filter (\<lambda>e. CanonicalMIMEHeaderKey env (fst e) = k)
                                (hget hp (Client.Header c))))
             @ concat (map snd (filter (\<lambda>e. CanonicalMIMEHeaderKey env (fst e) = k)
                                  (hget hp (Request.Header req))))"
proof -
  assume a: "allocated hp (Client.Header c)" "allocated hp (Request.Header req)"
  from Run_calls[OF assms] obtain body where
    r: "r = outbound_request hp c ctx body"
    and heap: "out_heap (Run env hp w c ctx req resp) = outbound_heap env hp c req"
    by blast
  show ?thesis
    by (simp add: heap r outbound_heap_allocated[OF a] outbound_request_def values_of_added
          entries_for_def)
qed

subsection \<open>Decoding with and without a target\<close>

lemma orElse_None [simp]: "orElse a b = None \<longleftrightarrow> a = None \<and> b = None"
  by (cases a) (auto simp: orElse_def)

lemma no_target_field:
  assumes "Errors (fst sn) = Errors (fst st)" and "snd sn = None"
  shows "Errors (fst (fst (store_GraphQLResponse_field dec k v sn)))
           = Errors (fst (fst (store_GraphQLResponse_field dec k v st)))
         \<and> snd (fst (store_GraphQLResponse_field dec k v sn)) = None
         \<and> (snd (store_GraphQLResponse_field dec k v st) = None
              \<longrightarrow> snd (store_GraphQLResponse_field dec k v sn) = None)"
  using assms
  by (cases sn; cases st)
     (auto simp: store_GraphQLResponse_field_def split_beta
           split: option.splits data_slot.splits json.splits)

lemma no_target_members:
  assumes "Errors (fst sn) = Errors (fst st)" and "snd sn = None"
  shows "Errors (fst (fst (store_members (store_GraphQLResponse_field dec) ms sn)))
           = Errors (fst (fst (store_members (store_GraphQLResponse_field dec) ms st)))
         \<and> snd (fst (store_members (store_GraphQLResponse_field dec) ms sn)) = None
         \<and> (snd (store_members (store_GraphQLResponse_field dec) ms st) = None
              \<longrightarrow> snd (store_members (store_GraphQLResponse_field dec) ms sn) = None)"
  using assms
proof (induction ms arbitrary: sn st)
  case Nil
  then show ?case by simp
next
  case (Cons m ms)
  obtain k v where m: "m = (k, v)" by (cases m)
  note step = no_target_field[OF Cons.prems, of dec k v]
  from step have a: "Errors (fst (fst (store_GraphQLResponse_field dec k v sn)))
      = Errors (fst (fst (store_GraphQLResponse_field dec k v st)))"
    and b: "snd (fst (store_GraphQLResponse_field dec k v sn)) = None" by simp_all
  from Cons.IH[OF a b] step show ?case
    by (simp add: m split_beta)
qed

lemma Decode_no_target:
  fixes env :: "('m, 't) env"
  assumes "Decode env buf (fresh_response (None :: 't option)) None = (g2, t2, e2)"
    and "Decode env buf (fresh_response resp) resp = (g1, t1, e1)"
  shows "Errors g2 = Errors g1 \<and> t2 = None \<and> (e1 = None \<longrightarrow> e2 = None)"
proof (cases "parseValue env buf")
  case (Inl err)
  with assms show ?thesis by (auto simp: Decode_def fresh_response_def)
next
  case (Inr j)
  show ?thesis
  proof (cases j)
    case (JObject ms)
    have "Errors (fst (fresh_response (None :: 't option), None :: 't option))
            = Errors (fst (fresh_response resp, resp))"
      and "snd (fresh_response (None :: 't option), None :: 't option) = None"
      by (simp_all add: fresh_response_def)
    from no_target_members[OF this, of "decodeInto env" ms] assms Inr JObject
    show ?thesis by (auto simp: Decode_def split_beta)
  qed (use assms Inr in \<open>auto simp: Decode_def fresh_response_def\<close>)
qed

lemma after_response_no_target:
  fixes env :: "('m, 't) env"
  assumes "snd (snd (snd (after_response env c3 (Some t) res))) = None"
  shows "snd (snd (snd (after_response env c3 None res))) = None
         \<and> fst (snd (snd (after_response env c3 None res)))
             = fst (snd (snd (after_response env c3 (Some t) res)))"
proof -
  from after_response_success[OF assms] obtain buf gr resp' where
    status: "StatusCode res = 200" and body: "http_Response.Body res = Inr buf"
    and dt: "Decode env buf (fresh_response (Some t)) (Some t) = (gr, resp', None)"
    by blast
  obtain g2 t2 e2 where
    dn: "Decode env buf (fresh_response (None :: 't option)) None = (g2, t2, e2)"
    by (cases "Decode env buf (fresh_response (None :: 't option)) None")
  from Decode_no_target[OF dn dt] have rel: "Errors g2 = Errors gr" "e2 = None" by simp_all
  from after_response_200[OF status body dt, of c3] after_response_200[OF status body dn, of c3] rel
  show ?thesis by simp
qed

section \<open>The properties\<close>

text \<open>
  The properties of the specification, C1 to C10, each as one theorem about the
  definitions above, and each theorem that has a hypothesis with an instance on the
  values of the tests.
\<close>

text \<open>
  C1. A request whose variables and operation name are absent is serialized with the
  key \<^verbatim>\<open>"variables"\<close> and the key \<^verbatim>\<open>"operationName"\<close> both present and both
  \<^verbatim>\<open>null\<close>: encoding the body object of such a request never fails and gives exactly
  the text \<^verbatim>\<open>{"query":<the query>,"variables":null,"operationName":null}\<close> with the
  encoder's final newline, and that text is the body of every request \<^verbatim>\<open>Run\<close> hands
  to the HTTP client.
\<close>

theorem absent_fields_serialize_as_null:
  assumes "vars req = None" and "opName req = None"
  shows \<open>Encode env \<lparr>Query = q req, Variables = vars req, OperationName = opName req\<rparr>
           = Inr (''{"query":'' @ encString env (q req)
                  @ '',"variables":null,"operationName":null}'' @ [CHR 0x0A])
         \<and> (\<forall>call \<in> set (calls (Run env hp w c ctx req resp)).
               http_Request.Body (fst call)
                 = ''{"query":'' @ encString env (q req)
                   @ '',"variables":null,"operationName":null}'' @ [CHR 0x0A])\<close>
proof -
  have enc: \<open>Encode env (request_body req)
           = Inr (''{"query":'' @ encString env (q req)
                  @ '',"variables":null,"operationName":null}'' @ [CHR 0x0A])\<close>
    using assms by (simp add: Encode_def request_body_def)
  have \<open>http_Request.Body r = ''{"query":'' @ encString env (q req)
                   @ '',"variables":null,"operationName":null}'' @ [CHR 0x0A]\<close>
    if "calls (Run env hp w c ctx req resp) = [(r, x)]" for r x
    using Run_calls[OF that] enc by (auto simp: outbound_request_def)
  moreover have "calls (Run env hp w c ctx req resp) = []
      \<or> (\<exists>r x. calls (Run env hp w c ctx req resp) = [(r, x)])"
    by (auto simp: Run_stages stopped_def split: option.splits sum.splits prod.splits)
  ultimately show ?thesis using enc by (auto simp: request_body_def)
qed

theorem absent_fields_serialize_as_null_witness:
  "vars test_request = None \<and> opName test_request = None
   \<and> calls (Run test_env test_heap 0 (test_client 200 doc_data) \<lparr>Err = None\<rparr> test_request (Some []))
       = [(test_outbound test_heap, Inr (test_response 200 doc_data))]
   \<and> http_Request.Body (test_outbound test_heap) = test_envelope"
  using absent_fields_serialize_as_null
    [of test_request test_env test_heap 0 "test_client 200 doc_data" "\<lparr>Err = None\<rparr>" "Some []"]
  by (simp add: Run_stages request_body_def outbound_request_def Encode_def test_request_def
        test_env_def test_client_def test_server_def test_outbound_def test_envelope_def
        split: prod.split)

text \<open>
  C2. Take a call of \<^verbatim>\<open>Run\<close> whose HTTP client returned a response with status 200
  and a body that was read and decoded without error into \<open>gr\<close>. Then \<^verbatim>\<open>Run\<close> returns
  no failure; it returns the decoded error list when that list is not empty and a nil
  list when it is empty; and the caller's object is what the decoder left in it. When
  the envelope is an object with one \<^verbatim>\<open>errors\<close> member, a non-empty array gives an
  error list of the same length, and an empty array or no \<^verbatim>\<open>errors\<close> member gives the
  nil list; when it has one \<^verbatim>\<open>data\<close> member that is not \<^verbatim>\<open>null\<close>, the caller's object
  is that member stored into it.
\<close>

theorem graphql_errors_come_with_nil_failure:
  assumes "calls (Run env hp w c ctx req resp) = [(r, Inr res)]"
    and "StatusCode res = 200"
    and "http_Response.Body res = Inr buf"
    and "Decode env buf (fresh_response resp) resp = (gr, resp', None)"
  shows "failure (Run env hp w c ctx req resp) = None
         \<and> out_target (Run env hp w c ctx req resp) = resp'
         \<and> (Errors gr \<noteq> [] \<longrightarrow> gqlerrs (Run env hp w c ctx req resp) = Some (Errors gr))
         \<and> (Errors gr = [] \<longrightarrow> gqlerrs (Run env hp w c ctx req resp) = None)
         \<and> (\<forall>ms es. parseValue env buf = Inr (JObject ms)
               \<and> members_for GraphQLResponse_fields ''errors'' ms = [JArray es] \<and> es \<noteq> []
               \<longrightarrow> (\<exists>errs. gqlerrs (Run env hp w c ctx req resp) = Some errs
                            \<and> length errs = length es))
         \<and> (\<forall>ms. parseValue env buf = Inr (JObject ms)
               \<and> (members_for GraphQLResponse_fields ''errors'' ms = []
                    \<or> members_for GraphQLResponse_fields ''errors'' ms = [JArray []])
               \<longrightarrow> gqlerrs (Run env hp w c ctx req resp) = None)
         \<and> (\<forall>ms dv t. resp = Some t \<and> parseValue env buf = Inr (JObject ms)
               \<and> members_for GraphQLResponse_fields ''data'' ms = [dv] \<and> dv \<noteq> JNull
               \<longrightarrow> out_target (Run env hp w c ctx req resp) = Some (fst (decodeInto env dv t)))"
proof -
  from Run_response[OF assms(1)] after_response_200[OF assms(2,3,4), of "recorded_request hp c req"]
  have res: "out_target (Run env hp w c ctx req resp) = resp'"
    "failure (Run env hp w c ctx req resp) = None"
    "gqlerrs (Run env hp w c ctx req resp) = (if Errors gr \<noteq> [] then Some (Errors gr) else None)"
    by (auto simp: prod_eq_iff)
  have dec: "store_members (store_GraphQLResponse_field (decodeInto env)) ms (fresh_response resp, resp)
               = ((gr, resp'), None)"
    if "parseValue env buf = Inr (JObject ms)" for ms
    using assms(4) that by (simp add: Decode_def split: prod.splits)
  have one: "Errors gr = fst (store_elems store_GraphQLError zero_GraphQLError [] es)"
    if "parseValue env buf = Inr (JObject ms)"
      and "members_for GraphQLResponse_fields ''errors'' ms = [JArray es]" for ms es
    using Errors_one_member[OF that(2), of "decodeInto env" "(fresh_response resp, resp)"] dec[OF that(1)]
    by (simp add: fresh_response_def)
  have none: "Errors gr = []"
    if "parseValue env buf = Inr (JObject ms)"
      and "members_for GraphQLResponse_fields ''errors'' ms = []" for ms
    using Errors_no_member[OF that(2), of "decodeInto env" "(fresh_response resp, resp)"] dec[OF that(1)]
    by (simp add: fresh_response_def)
  have len: "length (Errors gr) = length es"
    if "parseValue env buf = Inr (JObject ms)"
      and "members_for GraphQLResponse_fields ''errors'' ms = [JArray es]" for ms es
    using one[OF that] store_elems_length[of store_GraphQLError zero_GraphQLError "[]" es] by simp
  have data: "resp' = Some (fst (decodeInto env dv t))"
    if "resp = Some t" and "parseValue env buf = Inr (JObject ms)"
      and "members_for GraphQLResponse_fields ''data'' ms = [dv]" and "dv \<noteq> JNull" for ms dv t
    using target_one_member[OF that(3,4), of "fresh_response resp" "decodeInto env" t]
      dec[OF that(2)] that(1)
    by (simp add: fresh_response_def)
  have some: "\<exists>errs. gqlerrs (Run env hp w c ctx req resp) = Some errs \<and> length errs = length es"
    if "parseValue env buf = Inr (JObject ms)"
      and "members_for GraphQLResponse_fields ''errors'' ms = [JArray es]" and "es \<noteq> []" for ms es
  proof -
    from len[OF that(1,2)] that(3) have "Errors gr \<noteq> []" by auto
    with res(3) len[OF that(1,2)] show ?thesis by simp
  qed
  have nil: "gqlerrs (Run env hp w c ctx req resp) = None"
    if "parseValue env buf = Inr (JObject ms)"
      and "members_for GraphQLResponse_fields ''errors'' ms = []
            \<or> members_for GraphQLResponse_fields ''errors'' ms = [JArray []]" for ms
  proof -
    from that(2) have "Errors gr = []"
    proof
      assume "members_for GraphQLResponse_fields ''errors'' ms = []"
      from none[OF that(1) this] show ?thesis .
    next
      assume "members_for GraphQLResponse_fields ''errors'' ms = [JArray []]"
      from one[OF that(1) this] show ?thesis by simp
    qed
    with res(3) show ?thesis by simp
  qed
  show ?thesis
  proof (intro conjI allI impI)
    show "failure (Run env hp w c ctx req resp) = None" by (rule res(2))
    show "out_target (Run env hp w c ctx req resp) = resp'" by (rule res(1))
    show "gqlerrs (Run env hp w c ctx req resp) = Some (Errors gr)" if "Errors gr \<noteq> []"
      using res(3) that by simp
    show "gqlerrs (Run env hp w c ctx req resp) = None" if "Errors gr = []"
      using res(3) that by simp
    show "\<exists>errs. gqlerrs (Run env hp w c ctx req resp) = Some errs \<and> length errs = length es"
      if "parseValue env buf = Inr (JObject ms)
            \<and> members_for GraphQLResponse_fields ''errors'' ms = [JArray es] \<and> es \<noteq> []" for ms es
      using some[of ms es] that by blast
    show "gqlerrs (Run env hp w c ctx req resp) = None"
      if "parseValue env buf = Inr (JObject ms)
            \<and> (members_for GraphQLResponse_fields ''errors'' ms = []
                 \<or> members_for GraphQLResponse_fields ''errors'' ms = [JArray []])" for ms
      using nil[of ms] that by blast
    show "out_target (Run env hp w c ctx req resp) = Some (fst (decodeInto env dv t))"
      if "resp = Some t \<and> parseValue env buf = Inr (JObject ms)
            \<and> members_for GraphQLResponse_fields ''data'' ms = [dv] \<and> dv \<noteq> JNull" for ms dv t
      using data[of t ms dv] that res(1) by blast
  qed
qed

theorem graphql_errors_come_with_nil_failure_witness:
  "calls (Run test_env test_heap 0 (test_client 200 doc_errors) \<lparr>Err = None\<rparr> test_request (Some []))
     = [(test_outbound test_heap, Inr (test_response 200 doc_errors))]
   \<and> StatusCode (test_response 200 doc_errors) = 200
   \<and> http_Response.Body (test_response 200 doc_errors) = Inr doc_errors
   \<and> Decode test_env doc_errors (fresh_response (Some [])) (Some [])
       = (\<lparr>Data = Injected, Errors = [test_error]\<rparr>, Some [(''something'', ''yes'')], None)
   \<and> failure (Run test_env test_heap 0 (test_client 200 doc_errors) \<lparr>Err = None\<rparr> test_request (Some []))
       = None
   \<and> out_target (Run test_env test_heap 0 (test_client 200 doc_errors) \<lparr>Err = None\<rparr> test_request (Some []))
       = Some [(''something'', ''yes'')]
   \<and> gqlerrs (Run test_env test_heap 0 (test_client 200 doc_errors) \<lparr>Err = None\<rparr> test_request (Some []))
       = Some [test_error]"
proof -
  have c: "calls (Run test_env test_heap 0 (test_client 200 doc_errors) \<lparr>Err = None\<rparr> test_request (Some []))
     = [(test_outbound test_heap, Inr (test_response 200 doc_errors))]"
    by (simp add: Run_stages request_body_def outbound_request_def Encode_def test_request_def
        test_env_def test_client_def test_server_def test_outbound_def test_envelope_def
        split: prod.split)
  have s: "StatusCode (test_response 200 doc_errors) = 200"
    and b: "http_Response.Body (test_response 200 doc_errors) = Inr doc_errors"
    by (simp_all add: test_response_def)
  have d: "Decode test_env doc_errors (fresh_response (Some [])) (Some [])
       = (\<lparr>Data = Injected, Errors = [test_error]\<rparr>, Some [(''something'', ''yes'')], None)"
    by (simp add: Decode_def fresh_response_def test_env_def test_scan_def test_documents_def
        doc_data_def doc_errors_def doc_bad_def test_error_def test_envelope_members_def
        test_error_members_def
        store_GraphQLResponse_field_def store_GraphQLError_field_def store_Location_field_def
        find_field_def GraphQLResponse_fields_def GraphQLError_fields_def Location_fields_def
        upper_def char_of_def orElse_def fits_int_def zero_GraphQLError_def zero_Location_def)
  from graphql_errors_come_with_nil_failure[OF c s b d] c s b d show ?thesis
    by (simp add: test_error_def)
qed

text \<open>
  C3. When the HTTP client returned a response whose status is not 200, \<^verbatim>\<open>Run\<close> returns
  a nil error list and the failure whose message holds the status code in decimal; the
  caller's object is as it was; the body is neither read (no \<^verbatim>\<open>ResBody\<close> is recorded)
  nor decoded: the outcome is the same whatever the scanner and the store into the
  caller's object would do.
\<close>

theorem non_200_fails_without_decoding:
  assumes "calls (Run env hp w c ctx req resp) = [(r, Inr res)]"
    and "StatusCode res \<noteq> 200"
  shows "gqlerrs (Run env hp w c ctx req resp) = None
         \<and> failure (Run env hp w c ctx req resp)
             = Some (ErrorString (''HTTP Error '' @ itoa (StatusCode res)
                                  @ '': graphql server returned a non-200 status code''))
         \<and> out_target (Run env hp w c ctx req resp) = resp
         \<and> InspectRun (out_client (Run env hp w c ctx req resp)) ''ResBody'' = None
         \<and> Run (env\<lparr>parseValue := scan, decodeInto := dec\<rparr>) hp w c ctx req resp
             = Run env hp w c ctx req resp"
proof -
  from Run_response[OF assms(1)] after_response_not_200[OF assms(2), of env "recorded_request hp c req" resp]
  have "gqlerrs (Run env hp w c ctx req resp) = None"
    and "failure (Run env hp w c ctx req resp)
             = Some (ErrorString (''HTTP Error '' @ itoa (StatusCode res)
                                  @ '': graphql server returned a non-200 status code''))"
    and "out_target (Run env hp w c ctx req resp) = resp"
    and "InspectRun (out_client (Run env hp w c ctx req resp)) ''ResBody'' = None"
    by (auto simp: prod_eq_iff recorded_request_def)
  moreover
  from Run_calls[OF assms(1)] obtain body Do w' where path:
    "Err ctx = None" "Encode env (request_body req) = Inr body"
    "parseURL env (Endpoint c) = None" "httpClient c = Some Do"
    "r = outbound_request hp c ctx body"
    "Do w (outbound_heap env hp c req) r = (Inr res, w')"
    by blast
  have "Run (env\<lparr>parseValue := scan, decodeInto := dec\<rparr>) hp w c ctx req resp
          = Run env hp w c ctx req resp"
    using path assms(2)
    by (simp add: Run_stages Encode_other_decoder outbound_heap_other_decoder
          after_response_not_200)
  ultimately show ?thesis by simp
qed

theorem non_200_fails_without_decoding_witness:
  "calls (Run test_env test_heap 0 (test_client 400 doc_bad) \<lparr>Err = None\<rparr> test_request (Some []))
     = [(test_outbound test_heap, Inr (test_response 400 doc_bad))]
   \<and> StatusCode (test_response 400 doc_bad) \<noteq> 200
   \<and> gqlerrs (Run test_env test_heap 0 (test_client 400 doc_bad) \<lparr>Err = None\<rparr> test_request (Some []))
       = None
   \<and> failure (Run test_env test_heap 0 (test_client 400 doc_bad) \<lparr>Err = None\<rparr> test_request (Some []))
       = Some (ErrorString ''HTTP Error 400: graphql server returned a non-200 status code'')
   \<and> out_target (Run test_env test_heap 0 (test_client 400 doc_bad) \<lparr>Err = None\<rparr> test_request (Some []))
       = Some []"
proof -
  have c: "calls (Run test_env test_heap 0 (test_client 400 doc_bad) \<lparr>Err = None\<rparr> test_request (Some []))
     = [(test_outbound test_heap, Inr (test_response 400 doc_bad))]"
    by (simp add: Run_stages request_body_def outbound_request_def Encode_def test_request_def
        test_env_def test_client_def test_server_def test_outbound_def test_envelope_def
        split: prod.split)
  have s: "StatusCode (test_response 400 doc_bad) \<noteq> 200"
    by (simp add: test_response_def)
  from non_200_fails_without_decoding[OF c s] c s show ?thesis
    by (simp add: test_response_def itoa_def utoa.simps)
qed

text \<open>
  C4. The header map of the request handed to the HTTP client is the fresh, empty map
  of \<^verbatim>\<open>http.NewRequest\<close> to which first every value of every entry of the client's
  header map and then every value of every entry of the request's header map has been
  added with \<^verbatim>\<open>Add\<close>. So under every key it holds the client's values for that key
  followed by the request's values for it, none replaced, the keys compared in their
  canonical form; and this map is the one recorded as \<^verbatim>\<open>ReqHeaders\<close>.
\<close>

theorem outbound_headers_are_client_then_request:
  assumes "calls (Run env hp w c ctx req resp) = [(r, x)]"
    and "allocated hp (Client.Header c)"
    and "allocated hp (Request.Header req)"
  shows "out_heap (Run env hp w c ctx req resp) ! http_Request.Header r
           = added (CanonicalMIMEHeaderKey env)
               (added (CanonicalMIMEHeaderKey env) [] (hget hp (Client.Header c)))
               (hget hp (Request.Header req))
         \<and> (\<forall>k. values_of (out_heap (Run env hp w c ctx req resp) ! http_Request.Header r) k
                  = entries_for (CanonicalMIMEHeaderKey env) (hget hp (Client.Header c)) k
                    @ entries_for (CanonicalMIMEHeaderKey env) (hget hp (Request.Header req)) k)
         \<and> InspectRun (out_client (Run env hp w c ctx req resp)) ''ReqHeaders''
             = Some (HeaderRef (http_Request.Header r))"
proof -
  from Run_calls[OF assms(1)] obtain body where
    r: "r = outbound_request hp c ctx body"
    and heap: "out_heap (Run env hp w c ctx req resp) = outbound_heap env hp c req"
    by blast
  have at: "out_heap (Run env hp w c ctx req resp) ! http_Request.Header r
           = added (CanonicalMIMEHeaderKey env)
               (added (CanonicalMIMEHeaderKey env) [] (hget hp (Client.Header c)))
               (hget hp (Request.Header req))"
    by (simp add: heap r outbound_heap_allocated[OF assms(2,3)] outbound_request_def)
  have vals: "values_of (out_heap (Run env hp w c ctx req resp) ! http_Request.Header r) k
                  = entries_for (CanonicalMIMEHeaderKey env) (hget hp (Client.Header c)) k
                    @ entries_for (CanonicalMIMEHeaderKey env) (hget hp (Request.Header req)) k" for k
    by (simp add: at values_of_added)
  have "InspectRun (out_client (Run env hp w c ctx req resp)) ''ReqHeaders''
             = Some (HeaderRef (http_Request.Header r))"
  proof (cases x)
    case (Inl err)
    with assms(1) show ?thesis
      by (auto simp: Run_stages stopped_def recorded_request_def outbound_request_def
               split: option.splits sum.splits prod.splits)
  next
    case (Inr res)
    with assms(1) Run_response[of env hp w c ctx req resp r res]
    have "out_client (Run env hp w c ctx req resp)
            = fst (after_response env (recorded_request hp c req) resp res)"
      by (simp add: prod_eq_iff)
    then show ?thesis
      by (simp add: r after_response_def Let_def recorded_request_def outbound_request_def
               split: sum.split prod.split option.split)
  qed
  with at vals show ?thesis by simp
qed

theorem outbound_headers_are_client_then_request_witness:
  "calls (Run test_env test_heap 0 (test_client 200 doc_data) \<lparr>Err = None\<rparr> test_request_headers (Some []))
     = [(test_outbound test_heap, Inr (test_response 200 doc_data))]
   \<and> allocated test_heap (Client.Header (test_client 200 doc_data))
   \<and> allocated test_heap (Request.Header test_request_headers)
   \<and> values_of (out_heap (Run test_env test_heap 0 (test_client 200 doc_data) \<lparr>Err = None\<rparr>
                  test_request_headers (Some [])) ! http_Request.Header (test_outbound test_heap)) ''X-A''
       = [''1'', ''2'']
   \<and> values_of (out_heap (Run test_env test_heap 0 (test_client 200 doc_data) \<lparr>Err = None\<rparr>
                  test_request_headers (Some [])) ! http_Request.Header (test_outbound test_heap))
         ''X-Some-Fromreq''
       = [''reqVal'']"
proof -
  have c: "calls (Run test_env test_heap 0 (test_client 200 doc_data) \<lparr>Err = None\<rparr> test_request_headers (Some []))
     = [(test_outbound test_heap, Inr (test_response 200 doc_data))]"
    by (simp add: Run_stages request_body_def outbound_request_def Encode_def
        test_request_headers_def test_env_def test_client_def test_server_def test_outbound_def
        test_envelope_def split: prod.split)
  have a: "allocated test_heap (Client.Header (test_client 200 doc_data))"
    "allocated test_heap (Request.Header test_request_headers)"
    by (simp_all add: allocated_def test_heap_def test_client_def test_request_headers_def)
  have e: "entries_for test_canon (hget test_heap (Some 0)) ''X-A'' = [''1'']"
    "entries_for test_canon (hget test_heap (Some (Suc 0))) ''X-A'' = [''2'']"
    "entries_for test_canon (hget test_heap (Some 0)) ''X-Some-Fromreq'' = []"
    "entries_for test_canon (hget test_heap (Some (Suc 0))) ''X-Some-Fromreq'' = [''reqVal'']"
    by (simp_all add: entries_for_def hget_def test_heap_def test_canon_def key_char_def
        upper_def lower_def char_of_def)
  have f: "CanonicalMIMEHeaderKey test_env = test_canon"
    "Client.Header (test_client 200 doc_data) = Some 0"
    "Request.Header test_request_headers = Some (Suc 0)"
    by (simp_all add: test_env_def test_client_def test_request_headers_def)
  from outbound_headers_are_client_then_request[OF c a, unfolded f]
  have v: "values_of (out_heap (Run test_env test_heap 0 (test_client 200 doc_data) \<lparr>Err = None\<rparr>
                  test_request_headers (Some [])) ! http_Request.Header (test_outbound test_heap)) k
            = entries_for test_canon (hget test_heap (Some 0)) k
              @ entries_for test_canon (hget test_heap (Some (Suc 0))) k" for k
    by blast
  from c a show ?thesis by (simp add: v e)
qed

text \<open>
  C5. When the context is already done on entry, \<^verbatim>\<open>Run\<close> returns that context's error
  and a nil error list at once: the HTTP client is not called, the state of the network,
  the heap and the caller's object are as before, and the client, with its snapshot
  \<^verbatim>\<open>InspectRun\<close>, is unchanged.
\<close>

theorem cancelled_context_returns_at_once:
  "Err ctx = Some e \<Longrightarrow>
     Run env hp w c ctx req resp =
       \<lparr>out_client = c, out_target = resp, out_heap = hp, out_world = w, calls = [],
        gqlerrs = None, failure = Some e\<rparr>"
  by (simp add: Run_def)

theorem cancelled_context_witness:
  "Err \<lparr>Err = Some Canceled\<rparr> = Some Canceled
   \<and> Run test_env test_heap 0 (test_client 200 doc_data) \<lparr>Err = Some Canceled\<rparr> test_request (Some [])
       = \<lparr>out_client = test_client 200 doc_data, out_target = Some [], out_heap = test_heap,
          out_world = 0, calls = [], gqlerrs = None, failure = Some Canceled\<rparr>"
  using cancelled_context_returns_at_once
    [of "\<lparr>Err = Some Canceled\<rparr>" Canceled test_env test_heap 0 "test_client 200 doc_data"
        test_request "Some []"]
  by simp

text \<open>
  C6. When the context is not done on entry, \<^verbatim>\<open>Run\<close> starts from an empty snapshot:
  its whole outcome is the same whatever \<^verbatim>\<open>InspectRun\<close> held before the call, the
  snapshot after the call has no key but the seven \<^verbatim>\<open>Run\<close> writes, and its
  \<^verbatim>\<open>ReqBody\<close> is the body object of this request.
\<close>

theorem snapshot_is_reset_on_entry:
  assumes "Err ctx = None"
  shows "Run env hp w (c\<lparr>InspectRun := old\<rparr>) ctx req resp
           = Run env hp w (c\<lparr>InspectRun := Map.empty\<rparr>) ctx req resp
         \<and> dom (InspectRun (out_client (Run env hp w c ctx req resp)))
             \<subseteq> {''ReqBody'', ''ReqHeaders'', ''ResStatusCode'', ''ResHeaders'', ''ResCookies'',
                 ''ResContentLength'', ''ResBody''}
         \<and> InspectRun (out_client (Run env hp w c ctx req resp)) ''ReqBody''
             = Some (ReqBodyRef \<lparr>Query = q req, Variables = vars req, OperationName = opName req\<rparr>)"
proof -
  have same: "Run env hp w (c\<lparr>InspectRun := old\<rparr>) ctx req resp
           = Run env hp w (c\<lparr>InspectRun := Map.empty\<rparr>) ctx req resp"
    by (simp add: Run_any_snapshot[OF assms])
  have after: "dom (InspectRun (fst (after_response env (recorded_request hp c req) resp res)))
             \<subseteq> {''ReqBody'', ''ReqHeaders'', ''ResStatusCode'', ''ResHeaders'', ''ResCookies'',
                 ''ResContentLength'', ''ResBody''}
         \<and> InspectRun (fst (after_response env (recorded_request hp c req) resp res)) ''ReqBody''
             = Some (ReqBodyRef (request_body req))" for res
    by (simp add: after_response_def Let_def recorded_request_def
          split: sum.split prod.split option.split)
  have "dom (InspectRun (out_client (Run env hp w c ctx req resp)))
             \<subseteq> {''ReqBody'', ''ReqHeaders'', ''ResStatusCode'', ''ResHeaders'', ''ResCookies'',
                 ''ResContentLength'', ''ResBody''}
         \<and> InspectRun (out_client (Run env hp w c ctx req resp)) ''ReqBody''
             = Some (ReqBodyRef (request_body req))"
  proof (cases "calls (Run env hp w c ctx req resp)")
    case Nil
    with assms show ?thesis
      by (auto simp: Run_stages stopped_def recorded_body_def recorded_request_def
               split: option.splits sum.splits prod.splits)
  next
    case (Cons call rest)
    show ?thesis
    proof (cases "snd call")
      case (Inl err)
      with Cons assms show ?thesis
        by (auto simp: Run_stages stopped_def recorded_body_def recorded_request_def
                 split: option.splits sum.splits prod.splits)
    next
      case (Inr res)
      with Cons have "calls (Run env hp w c ctx req resp) = [(fst call, Inr res)]"
        by (auto simp: Run_stages stopped_def split: option.splits sum.splits prod.splits)
      from Run_response[OF this] have "out_client (Run env hp w c ctx req resp)
            = fst (after_response env (recorded_request hp c req) resp res)"
        by (simp add: prod_eq_iff)
      with after[of res] show ?thesis by simp
    qed
  qed
  with same show ?thesis by (simp add: request_body_def)
qed

theorem snapshot_is_reset_on_entry_witness:
  "Err \<lparr>Err = None\<rparr> = None
   \<and> InspectRun (out_client (Run test_env test_heap 0
        ((test_client 400 doc_bad)\<lparr>InspectRun := [''ResBody'' \<mapsto> StringVal ''stale'']\<rparr>)
        \<lparr>Err = None\<rparr> test_request (Some []))) ''ResBody'' = None
   \<and> Run test_env test_heap 0
        ((test_client 400 doc_bad)\<lparr>InspectRun := [''ResBody'' \<mapsto> StringVal ''stale'']\<rparr>)
        \<lparr>Err = None\<rparr> test_request (Some [])
       = Run test_env test_heap 0 (test_client 400 doc_bad) \<lparr>Err = None\<rparr> test_request (Some [])"
proof -
  have e: "Err \<lparr>Err = None\<rparr> = None" by simp
  have c: "(test_client 400 doc_bad)\<lparr>InspectRun := Map.empty\<rparr> = test_client 400 doc_bad"
    by (simp add: test_client_def)
  have s: "InspectRun (out_client (Run test_env test_heap 0
        ((test_client 400 doc_bad)\<lparr>InspectRun := [''ResBody'' \<mapsto> StringVal ''stale'']\<rparr>)
        \<lparr>Err = None\<rparr> test_request (Some []))) ''ResBody'' = None"
    by (simp add: Run_stages request_body_def outbound_request_def Encode_def
        test_request_def test_env_def test_client_def test_server_def test_response_def
        after_response_def recorded_request_def split: prod.split)
  from snapshot_is_reset_on_entry[OF e, where env = test_env and hp = test_heap and w = 0
      and c = "test_client 400 doc_bad" and old = "[''ResBody'' \<mapsto> StringVal ''stale'']"
      and req = test_request and resp = "Some []"] c s
  show ?thesis by simp
qed

text \<open>
  C7. \<^verbatim>\<open>Run\<close> writes headers only into the fresh map of the outbound request: every
  header map that was in the heap before the call has its content after the call, in
  particular the client's map and the request's map, and the client still refers to the
  same map. Hence a second call on the client as the first call left it, with a request
  whose header map is empty (or nil), sends exactly the client's headers: under every
  key the client's values for it and nothing of the first request.
\<close>

theorem header_merge_leaves_stored_headers:
  assumes "allocated hp (Client.Header c)"
    and "allocated hp (Request.Header req)"
    and "allocated (out_heap (Run env hp w c ctx req resp)) (Request.Header req2)"
    and "hget (out_heap (Run env hp w c ctx req resp)) (Request.Header req2) = []"
    and "calls (Run env (out_heap (Run env hp w c ctx req resp))
                  (out_world (Run env hp w c ctx req resp))
                  (out_client (Run env hp w c ctx req resp)) ctx2 req2 resp2) = [(r2, x2)]"
  shows "take (length hp) (out_heap (Run env hp w c ctx req resp)) = hp
         \<and> hget (out_heap (Run env hp w c ctx req resp)) (Client.Header c) = hget hp (Client.Header c)
         \<and> hget (out_heap (Run env hp w c ctx req resp)) (Request.Header req)
             = hget hp (Request.Header req)
         \<and> Client.Header (out_client (Run env hp w c ctx req resp)) = Client.Header c
         \<and> (\<forall>k. values_of
                  (out_heap (Run env (out_heap (Run env hp w c ctx req resp))
                               (out_world (Run env hp w c ctx req resp))
                               (out_client (Run env hp w c ctx req resp)) ctx2 req2 resp2)
                     ! http_Request.Header r2) k
                = entries_for (CanonicalMIMEHeaderKey env) (hget hp (Client.Header c)) k)"
proof -
  let ?R1 = "Run env hp w c ctx req resp"
  have prefix: "take (length hp) (out_heap ?R1) = hp" by (rule Run_heap_prefix)
  have kept: "hget (out_heap ?R1) p = hget hp p" "allocated (out_heap ?R1) p" if "allocated hp p" for p
  proof -
    from prefix have len: "length hp \<le> length (out_heap ?R1)"
      by (metis length_take min.cobounded1)
    show "allocated (out_heap ?R1) p"
      using that len by (auto simp: allocated_def split: option.splits)
    show "hget (out_heap ?R1) p = hget hp p"
    proof (cases p)
      case None
      then show ?thesis by (simp add: hget_def)
    next
      case (Some a)
      with that have a: "a < length hp" by (simp add: allocated_def)
      from prefix have "take (length hp) (out_heap ?R1) ! a = hp ! a" by simp
      with a len Some show ?thesis by (simp add: hget_def)
    qed
  qed
  have client: "Client.Header (out_client ?R1) = Client.Header c"
    using Run_client[of env hp w c ctx req resp] by simp
  from sent_values[OF assms(5)] client
    kept(2)[OF assms(1)] assms(3) assms(4) kept(1)[OF assms(1)]
  have "values_of
          (out_heap (Run env (out_heap ?R1) (out_world ?R1) (out_client ?R1) ctx2 req2 resp2)
             ! http_Request.Header r2) k
        = entries_for (CanonicalMIMEHeaderKey env) (hget hp (Client.Header c)) k" for k
    by (simp add: entries_for_def)
  with prefix kept(1)[OF assms(1)] kept(1)[OF assms(2)] client show ?thesis by simp
qed

theorem header_merge_leaves_stored_headers_witness:
  "allocated test_heap (Client.Header (test_client 200 doc_data))
   \<and> allocated test_heap (Request.Header test_request_headers)
   \<and> out_heap (Run test_env test_heap 0 (test_client 200 doc_data) \<lparr>Err = None\<rparr>
                 test_request_headers (Some []))
       = test_heap @ [[(''Content-Type'', [''application/json; charset=utf-8'']),
                       (''Accept'', [''application/json; charset=utf-8'']),
                       (''X-Some-Fromcli'', [''cliVal'']),
                       (''X-A'', [''1'', ''2'']),
                       (''X-Some-Fromreq'', [''reqVal''])]]
   \<and> values_of
        (out_heap (Run test_env
           (out_heap (Run test_env test_heap 0 (test_client 200 doc_data) \<lparr>Err = None\<rparr>
                        test_request_headers (Some [])))
           (out_world (Run test_env test_heap 0 (test_client 200 doc_data) \<lparr>Err = None\<rparr>
                        test_request_headers (Some [])))
           (out_client (Run test_env test_heap 0 (test_client 200 doc_data) \<lparr>Err = None\<rparr>
                        test_request_headers (Some [])))
           \<lparr>Err = None\<rparr> test_request None) ! 3) ''X-Some-Fromreq'' = []
   \<and> values_of
        (out_heap (Run test_env
           (out_heap (Run test_env test_heap 0 (test_client 200 doc_data) \<lparr>Err = None\<rparr>
                        test_request_headers (Some [])))
           (out_world (Run test_env test_heap 0 (test_client 200 doc_data) \<lparr>Err = None\<rparr>
                        test_request_headers (Some [])))
           (out_client (Run test_env test_heap 0 (test_client 200 doc_data) \<lparr>Err = None\<rparr>
                        test_request_headers (Some [])))
           \<lparr>Err = None\<rparr> test_request None) ! 3) ''X-A'' = [''1'']"
proof -
  let ?R1 = "Run test_env test_heap 0 (test_client 200 doc_data) \<lparr>Err = None\<rparr>
               test_request_headers (Some [])"
  have a: "allocated test_heap (Client.Header (test_client 200 doc_data))"
    "allocated test_heap (Request.Header test_request_headers)"
    by (simp_all add: allocated_def test_heap_def test_client_def test_request_headers_def)
  have f: "CanonicalMIMEHeaderKey test_env = test_canon"
    "Client.Header (test_client 200 doc_data) = Some 0"
    "Request.Header test_request_headers = Some (Suc 0)"
    "Request.Header test_request = None"
    by (simp_all add: test_env_def test_client_def test_request_headers_def test_request_def)
  have c1: "calls ?R1 = [(test_outbound test_heap, Inr (test_response 200 doc_data))]"
    by (simp add: Run_stages request_body_def outbound_request_def Encode_def
        test_request_headers_def test_env_def test_client_def test_server_def test_outbound_def
        test_envelope_def split: prod.split)
  have ev: "added test_canon (added test_canon [] (hget test_heap (Some 0)))
              (hget test_heap (Some (Suc 0)))
            = [(''Content-Type'', [''application/json; charset=utf-8'']),
               (''Accept'', [''application/json; charset=utf-8'']),
               (''X-Some-Fromcli'', [''cliVal'']),
               (''X-A'', [''1'', ''2'']),
               (''X-Some-Fromreq'', [''reqVal''])]"
    by (simp add: added_def Add_def hget_def test_heap_def test_canon_def key_char_def
          upper_def lower_def char_of_def)
  from Run_calls[OF c1]
  have hh: "out_heap ?R1 = outbound_heap test_env test_heap (test_client 200 doc_data)
                             test_request_headers"
    by blast
  have h1: "out_heap ?R1
       = test_heap @ [[(''Content-Type'', [''application/json; charset=utf-8'']),
                       (''Accept'', [''application/json; charset=utf-8'']),
                       (''X-Some-Fromcli'', [''cliVal'']),
                       (''X-A'', [''1'', ''2'']),
                       (''X-Some-Fromreq'', [''reqVal''])]]"
    by (simp add: hh outbound_heap_allocated[OF a, of test_env, unfolded f] ev)
  have "length test_heap = 2" by (simp add: test_heap_def)
  then have len: "length (out_heap ?R1) = 3" by (simp add: h1)
  have cl: "httpClient (out_client ?R1) = Some (test_server 200 doc_data)"
    "Endpoint (out_client ?R1) = ''http://127.0.0.1:8080''"
    "closeReq (out_client ?R1) = False"
    using Run_client[of test_env test_heap 0 "test_client 200 doc_data" "\<lparr>Err = None\<rparr>"
        test_request_headers "Some []"]
    by (simp_all add: test_client_def)
  have f2: "parseURL test_env url = None"
    "Encode test_env (request_body test_request) = Inr test_envelope" for url
    by (simp_all add: test_env_def Encode_def request_body_def test_request_def test_envelope_def)
  have c2: "calls (Run test_env (out_heap ?R1) (out_world ?R1) (out_client ?R1)
                      \<lparr>Err = None\<rparr> test_request None)
              = [(test_outbound (out_heap ?R1), Inr (test_response 200 doc_data))]"
    unfolding Run_stages[of test_env "out_heap ?R1" "out_world ?R1" "out_client ?R1"]
    by (simp add: cl f2 outbound_request_def test_server_def test_outbound_def split: prod.split)
  have r2: "http_Request.Header (test_outbound (out_heap ?R1)) = 3"
    by (simp add: test_outbound_def len)
  have e: "entries_for test_canon (hget test_heap (Some 0)) ''X-A'' = [''1'']"
    "entries_for test_canon (hget test_heap (Some 0)) ''X-Some-Fromreq'' = []"
    by (simp_all add: entries_for_def hget_def test_heap_def test_canon_def key_char_def
        upper_def lower_def char_of_def)
  have a2: "allocated (out_heap ?R1) (Request.Header test_request)"
    "hget (out_heap ?R1) (Request.Header test_request) = []"
    by (simp_all add: f allocated_def hget_def)
  from header_merge_leaves_stored_headers[OF a a2 c2, unfolded f r2]
  have v: "values_of
        (out_heap (Run test_env (out_heap ?R1) (out_world ?R1) (out_client ?R1)
           \<lparr>Err = None\<rparr> test_request None) ! 3) k
        = entries_for test_canon (hget test_heap (Some 0)) k" for k
    by blast
  have v1: "values_of
        (out_heap (Run test_env (out_heap ?R1) (out_world ?R1) (out_client ?R1)
           \<lparr>Err = None\<rparr> test_request None) ! 3) ''X-Some-Fromreq'' = []"
    and v2: "values_of
        (out_heap (Run test_env (out_heap ?R1) (out_world ?R1) (out_client ?R1)
           \<lparr>Err = None\<rparr> test_request None) ! 3) ''X-A'' = [''1'']"
    by (simp_all add: v e)
  from a h1 v1 v2 show ?thesis by (intro conjI) assumption+
qed

text \<open>
  C8. Take a response whose body is an object with one \<^verbatim>\<open>errors\<close> member, an array,
  and let element \<open>i\<close> of that array be an object with one \<^verbatim>\<open>locations\<close> member: an
  array of objects \<^verbatim>\<open>{"line": l, "column": c}\<close>, keys in lower case, the numbers
  within Go's \<^verbatim>\<open>int\<close>. When \<^verbatim>\<open>Run\<close> returns an error list, the list has the length of
  the array, and the \<^verbatim>\<open>Locations\<close> of its element \<open>i\<close> are exactly those lines and
  columns, in order. (The fields are tagged \<^verbatim>\<open>json:"Line"\<close> and \<^verbatim>\<open>json:"Column"\<close>;
  the decoder matches a key to a field ignoring case.)
\<close>

theorem locations_are_decoded_from_lowercase_keys:
  assumes "calls (Run env hp w c ctx req resp) = [(r, Inr res)]"
    and "http_Response.Body res = Inr buf"
    and "parseValue env buf = Inr (JObject ms)"
    and "members_for GraphQLResponse_fields ''errors'' ms = [JArray es]"
    and "i < length es"
    and "es ! i = JObject ems"
    and "members_for GraphQLError_fields ''locations'' ems = [JArray (map loc_json lcs)]"
    and "\<forall>lc \<in> set lcs. fits_int (fst lc) \<and> fits_int (snd lc)"
    and "gqlerrs (Run env hp w c ctx req resp) = Some errs"
  shows "length errs = length es \<and> Locations (errs ! i) = map loc_of lcs"
proof -
  obtain gr resp' e where dec: "Decode env buf (fresh_response resp) resp = (gr, resp', e)"
    by (cases "Decode env buf (fresh_response resp) resp")
  have status: "StatusCode res = 200"
  proof (rule ccontr)
    assume "StatusCode res \<noteq> 200"
    from Run_response[OF assms(1)] after_response_not_200[OF this, of env "recorded_request hp c req" resp]
    have "gqlerrs (Run env hp w c ctx req resp) = None" by (simp add: prod_eq_iff)
    with assms(9) show False by simp
  qed
  from Run_response[OF assms(1)] after_response_200[OF status assms(2) dec, of "recorded_request hp c req"]
  have "gqlerrs (Run env hp w c ctx req resp)
          = (if e = None \<and> Errors gr \<noteq> [] then Some (Errors gr) else None)"
    by (auto simp: prod_eq_iff)
  with assms(9) have errs: "errs = Errors gr" by (simp split: if_splits)
  from dec assms(3) have
    "fst (fst (store_members (store_GraphQLResponse_field (decodeInto env)) ms
                 (fresh_response resp, resp))) = gr"
    by (simp add: Decode_def split: prod.splits)
  with Errors_one_member[OF assms(4), of "decodeInto env" "(fresh_response resp, resp)"]
  have elems: "Errors gr = fst (store_elems store_GraphQLError zero_GraphQLError [] es)"
    by (simp add: fresh_response_def)
  have len: "length (Errors gr) = length es"
    by (simp add: elems store_elems_length)
  from store_elems_nth[OF assms(5), of store_GraphQLError zero_GraphQLError "[]"] assms(6)
  have "Errors gr ! i = fst (store_members store_GraphQLError_field ems zero_GraphQLError)"
    by (simp add: elems)
  with Locations_one_member[OF assms(7), of zero_GraphQLError] store_elems_locs[OF assms(8)]
  have "Locations (Errors gr ! i) = map loc_of lcs"
    by simp
  with len errs show ?thesis by simp
qed

theorem locations_are_decoded_from_lowercase_keys_witness:
  "calls (Run test_env test_heap 0 (test_client 200 doc_errors) \<lparr>Err = None\<rparr> test_request (Some []))
     = [(test_outbound test_heap, Inr (test_response 200 doc_errors))]
   \<and> http_Response.Body (test_response 200 doc_errors) = Inr doc_errors
   \<and> parseValue test_env doc_errors = Inr (JObject test_envelope_members)
   \<and> members_for GraphQLResponse_fields ''errors'' test_envelope_members
       = [JArray [JObject test_error_members]]
   \<and> (0::nat) < length [JObject test_error_members]
   \<and> [JObject test_error_members] ! 0 = JObject test_error_members
   \<and> members_for GraphQLError_fields ''locations'' test_error_members
       = [JArray (map loc_json [(1, 2)])]
   \<and> fits_int 1 \<and> fits_int 2
   \<and> gqlerrs (Run test_env test_heap 0 (test_client 200 doc_errors) \<lparr>Err = None\<rparr> test_request (Some []))
       = Some [test_error]
   \<and> Locations ([test_error] ! 0) = map loc_of [(1, 2)]"
proof -
  have c: "calls (Run test_env test_heap 0 (test_client 200 doc_errors) \<lparr>Err = None\<rparr> test_request (Some []))
     = [(test_outbound test_heap, Inr (test_response 200 doc_errors))]"
    by (simp add: Run_stages request_body_def outbound_request_def Encode_def test_request_def
        test_env_def test_client_def test_server_def test_outbound_def test_envelope_def
        split: prod.split)
  have b: "http_Response.Body (test_response 200 doc_errors) = Inr doc_errors"
    and s: "StatusCode (test_response 200 doc_errors) = 200"
    by (simp_all add: test_response_def)
  have p: "parseValue test_env doc_errors = Inr (JObject test_envelope_members)"
    by (simp add: test_env_def test_scan_def test_documents_def doc_data_def doc_errors_def)
  have m: "members_for GraphQLResponse_fields ''errors'' test_envelope_members
       = [JArray [JObject test_error_members]]"
    by (simp add: members_for_def test_envelope_members_def find_field_def
        GraphQLResponse_fields_def upper_def char_of_def)
  have i: "(0::nat) < length [JObject test_error_members]"
    and n: "[JObject test_error_members] ! 0 = JObject test_error_members"
    by simp_all
  have l: "members_for GraphQLError_fields ''locations'' test_error_members
       = [JArray (map loc_json [(1, 2)])]"
    by (simp add: members_for_def test_error_members_def find_field_def loc_json_def
        GraphQLError_fields_def upper_def char_of_def)
  have f: "\<forall>lc \<in> set [(1, 2)]. fits_int (fst lc) \<and> fits_int (snd lc)"
    by (simp add: fits_int_def)
  have d: "Decode test_env doc_errors (fresh_response (Some [])) (Some [])
       = (\<lparr>Data = Injected, Errors = [test_error]\<rparr>, Some [(''something'', ''yes'')], None)"
    by (simp add: Decode_def fresh_response_def test_env_def test_scan_def test_documents_def
        doc_data_def doc_errors_def test_envelope_members_def
        test_error_members_def test_error_def
        store_GraphQLResponse_field_def store_GraphQLError_field_def store_Location_field_def
        find_field_def GraphQLResponse_fields_def GraphQLError_fields_def Location_fields_def
        upper_def char_of_def orElse_def fits_int_def zero_GraphQLError_def zero_Location_def)
  from Run_response[OF c]
    after_response_200[OF s b d, of "recorded_request test_heap (test_client 200 doc_errors) test_request"]
  have g: "gqlerrs (Run test_env test_heap 0 (test_client 200 doc_errors) \<lparr>Err = None\<rparr>
                      test_request (Some [])) = Some [test_error]"
    by (simp add: prod_eq_iff)
  from locations_are_decoded_from_lowercase_keys[OF c b p m i n l f g] c b p m n l g
  show ?thesis by (simp add: fits_int_def)
qed

text \<open>
  C9. A call of \<^verbatim>\<open>Run\<close> with the nil response object performs the same exchange as
  the call with a target: the same call of the HTTP client with the same result, the
  same state of the network and of the heap afterwards, the same snapshot. Whenever the
  call with a target returns no failure, the call without one returns no failure
  either, and the same error list.
\<close>

theorem nil_target_still_runs_the_exchange:
  "calls (Run env hp w c ctx req None) = calls (Run env hp w c ctx req (Some t))
   \<and> out_world (Run env hp w c ctx req None) = out_world (Run env hp w c ctx req (Some t))
   \<and> out_heap (Run env hp w c ctx req None) = out_heap (Run env hp w c ctx req (Some t))
   \<and> out_client (Run env hp w c ctx req None) = out_client (Run env hp w c ctx req (Some t))
   \<and> (failure (Run env hp w c ctx req (Some t)) = None
        \<longrightarrow> failure (Run env hp w c ctx req None) = None
            \<and> gqlerrs (Run env hp w c ctx req None) = gqlerrs (Run env hp w c ctx req (Some t)))"
proof -
  note same = Run_same_exchange[of env hp w c ctx req None "Some t"]
  have "failure (Run env hp w c ctx req None) = None
        \<and> gqlerrs (Run env hp w c ctx req None) = gqlerrs (Run env hp w c ctx req (Some t))"
    if ok: "failure (Run env hp w c ctx req (Some t)) = None"
  proof -
    from Run_success[OF ok] obtain r res where
      ct: "calls (Run env hp w c ctx req (Some t)) = [(r, Inr res)]" by blast
    with same have cn: "calls (Run env hp w c ctx req None) = [(r, Inr res)]" by simp
    from Run_response[OF ct] ok
    have "snd (snd (snd (after_response env (recorded_request hp c req) (Some t) res))) = None"
      by (simp add: prod_eq_iff)
    from after_response_no_target[OF this] Run_response[OF ct] Run_response[OF cn]
    show ?thesis by (simp add: prod_eq_iff)
  qed
  with same show ?thesis by blast
qed

theorem nil_target_still_runs_the_exchange_witness:
  "failure (Run test_env test_heap 0 (test_client 200 doc_errors) \<lparr>Err = None\<rparr> test_request (Some []))
     = None
   \<and> failure (Run test_env test_heap 0 (test_client 200 doc_errors) \<lparr>Err = None\<rparr> test_request None)
       = None
   \<and> gqlerrs (Run test_env test_heap 0 (test_client 200 doc_errors) \<lparr>Err = None\<rparr> test_request None)
       = Some [test_error]
   \<and> calls (Run test_env test_heap 0 (test_client 200 doc_errors) \<lparr>Err = None\<rparr> test_request None)
       = [(test_outbound test_heap, Inr (test_response 200 doc_errors))]
   \<and> out_world (Run test_env test_heap 0 (test_client 200 doc_errors) \<lparr>Err = None\<rparr> test_request None)
       = Suc 0"
proof -
  have c: "calls (Run test_env test_heap 0 (test_client 200 doc_errors) \<lparr>Err = None\<rparr> test_request (Some []))
     = [(test_outbound test_heap, Inr (test_response 200 doc_errors))]"
    and w: "out_world (Run test_env test_heap 0 (test_client 200 doc_errors) \<lparr>Err = None\<rparr>
                         test_request (Some [])) = Suc 0"
    by (simp_all add: Run_stages request_body_def outbound_request_def Encode_def test_request_def
        test_env_def test_client_def test_server_def test_outbound_def test_envelope_def
        split: prod.split)
  have b: "http_Response.Body (test_response 200 doc_errors) = Inr doc_errors"
    and s: "StatusCode (test_response 200 doc_errors) = 200"
    by (simp_all add: test_response_def)
  have d: "Decode test_env doc_errors (fresh_response (Some [])) (Some [])
       = (\<lparr>Data = Injected, Errors = [test_error]\<rparr>, Some [(''something'', ''yes'')], None)"
    by (simp add: Decode_def fresh_response_def test_env_def test_scan_def test_documents_def
        doc_data_def doc_errors_def test_envelope_members_def
        test_error_members_def test_error_def
        store_GraphQLResponse_field_def store_GraphQLError_field_def store_Location_field_def
        find_field_def GraphQLResponse_fields_def GraphQLError_fields_def Location_fields_def
        upper_def char_of_def orElse_def fits_int_def zero_GraphQLError_def zero_Location_def)
  from Run_response[OF c]
    after_response_200[OF s b d, of "recorded_request test_heap (test_client 200 doc_errors) test_request"]
  have g: "gqlerrs (Run test_env test_heap 0 (test_client 200 doc_errors) \<lparr>Err = None\<rparr>
                      test_request (Some [])) = Some [test_error]"
    and f: "failure (Run test_env test_heap 0 (test_client 200 doc_errors) \<lparr>Err = None\<rparr>
                      test_request (Some [])) = None"
    by (simp_all add: prod_eq_iff)
  from nil_target_still_runs_the_exchange[of test_env test_heap 0 "test_client 200 doc_errors"
      "\<lparr>Err = None\<rparr>" test_request "[]"] c w g f
  show ?thesis by simp
qed

text \<open>
  C10. The option \<^verbatim>\<open>WithOperationName\<close> with the empty string leaves a request as it
  is: it does not clear an operation name an earlier option set, it can be dropped from
  any list of options, and a request made with that option alone has no operation name
  and is serialized with \<^verbatim>\<open>"operationName":null\<close>.
\<close>

theorem empty_operation_name_is_identity:
  \<open>WithOperationName '''' r = r
   \<and> WithOperationName '''' (WithOperationName s r) = WithOperationName s r
   \<and> NewRequest hp query (opts1 @ WithOperationName '''' # opts2) = NewRequest hp query (opts1 @ opts2)
   \<and> opName (fst (NewRequest hp query [WithOperationName ''''])) = None
   \<and> Encode env (request_body (fst (NewRequest hp query [WithOperationName ''''])))
       = Inr (''{"query":'' @ encString env query
              @ '',"variables":null,"operationName":null}'' @ [CHR 0x0A])\<close>
  by (simp add: WithOperationName_def NewRequest_def Encode_def request_body_def)

end
